theory Spec2Isabelle
  imports Complex_Main "HOL-Library.AList"
begin

text \<open>
  The tiered AI router of First Contact E.I.S. (\<open>server/ai-router.js\<close>) and its cost
  guard (\<open>server/cost-guard.js\<close>): a request is answered from the cache, else by the
  rules tier, else, when AI is enabled and the result is uncertain, by the cheap and then the
  expensive model tier under a daily token budget; any failure ends in a fixed fallback.

  Mutable state is passed explicitly: every function that changes the guard returns the
  new guard. Thrown errors are values of a sum type. Each reading of the clock is an
  argument of the function that reads it. Calls are modelled one after the other; what
  the source writes to the console is left out.
\<close>

section \<open>JavaScript values used by the router\<close>

text \<open>
  Strings are byte strings. \<open>toLowerCase\<close> is modelled on the ASCII letters, which is all
  that the keyword matching of the rules tier can observe (every keyword is lower-case ASCII).
\<close>

definition lower_char :: "char \<Rightarrow> char" where
  "lower_char c =
     (case map_of (zip ''ABCDEFGHIJKLMNOPQRSTUVWXYZ'' ''abcdefghijklmnopqrstuvwxyz'') c of
        Some l \<Rightarrow> l
      | None \<Rightarrow> c)"

definition toLowerCase :: "string \<Rightarrow> string" where
  "toLowerCase s = map lower_char s"

fun startsWith :: "string \<Rightarrow> string \<Rightarrow> bool" where
  "startsWith s [] = True"
| "startsWith [] (p # ps) = False"
| "startsWith (c # cs) (p # ps) = (c = p \<and> startsWith cs ps)"

text \<open>\<open>s.includes(sub)\<close> on strings: \<open>sub\<close> occurs in \<open>s\<close> as a contiguous substring.\<close>

fun str_includes :: "string \<Rightarrow> string \<Rightarrow> bool" where
  "str_includes [] sub = (sub = [])"
| "str_includes (c # cs) sub = (startsWith (c # cs) sub \<or> str_includes cs sub)"

text \<open>\<open>s.replace('-', ' ')\<close>: only the first occurrence is replaced.\<close>

fun replace_first :: "char \<Rightarrow> char \<Rightarrow> string \<Rightarrow> string" where
  "replace_first a b [] = []"
| "replace_first a b (c # cs) = (if c = a then b # cs else c # replace_first a b cs)"

text \<open>\<open>x || d\<close> on an optional number: undefined and 0 are falsy.\<close>

definition num_or :: "int option \<Rightarrow> int \<Rightarrow> int" where
  "num_or x d = (case x of None \<Rightarrow> d | Some n \<Rightarrow> if n = 0 then d else n)"

text \<open>
  Errors thrown inside the router. \<open>BudgetExceeded label limit used\<close> is the \<open>Error\<close> of
  \<open>withBudget\<close>, whose message interpolates the label, \<open>maxDailyTokens\<close> and
  \<open>dailyTokens\<close>. \<open>OperationFailed\<close> is whatever a guarded operation throws.
\<close>

datatype jserror =
    TypeError string
  | BudgetExceeded string int int
  | OperationFailed string

section \<open>Inputs and results\<close>

text \<open>
  The \<open>input\<close> argument of \<open>route\<close> comes from a JSON request body
  (\<open>req.body.query\<close> of \<open>/api/navigator\<close>) or is a client object of the repository
  (\<open>/api/triage\<close>, \<open>/api/careplan\<close>): a JSON value. A number is given by its rendering
  \<open>String(n)\<close>, which is all the router can observe of it; an object is the list of its
  own properties. A property that is read and absent is \<open>undefined\<close>, here \<open>None\<close>.
\<close>

datatype jvalue =
    JNull
  | JBool bool
  | JNum string
  | JStr string
  | JArr "jvalue list"
  | JObj "(string \<times> jvalue) list"

text \<open>
  The conversion to a string that a template literal \<open>`${input}`\<close> performs. An array is
  joined with commas, \<open>null\<close> elements giving the empty string. A plain object is
  \<open>[object Object]\<close>; an object with an own property \<open>toString\<close> (never a function in
  JSON data) has no primitive conversion, and the conversion throws.
\<close>

fun js_toString :: "jvalue \<Rightarrow> jserror + string"
  and js_join :: "jvalue list \<Rightarrow> jserror + string" where
  "js_toString JNull = Inr ''null''"
| "js_toString (JBool b) = Inr (if b then ''true'' else ''false'')"
| "js_toString (JNum r) = Inr r"
| "js_toString (JStr s) = Inr s"
| "js_toString (JArr xs) = js_join xs"
| "js_toString (JObj fs) =
     (if map_of fs ''toString'' = None then Inr ''[object Object]''
      else Inl (TypeError ''Cannot convert object to primitive value''))"
| "js_join [] = Inr []"
| "js_join (x # xs) =
     (case (if x = JNull then Inr [] else js_toString x) of
        Inl err \<Rightarrow> Inl err
      | Inr s \<Rightarrow>
          if xs = [] then Inr s
          else (case js_join xs of Inl err \<Rightarrow> Inl err | Inr t \<Rightarrow> Inr (s @ '','' @ t)))"

text \<open>Truthiness: \<open>null\<close>, \<open>false\<close>, \<open>0\<close>, \<open>NaN\<close> and the empty string are falsy.\<close>

fun js_truthy :: "jvalue \<Rightarrow> bool" where
  "js_truthy JNull = False"
| "js_truthy (JBool b) = b"
| "js_truthy (JNum r) = (r \<noteq> ''0'' \<and> r \<noteq> ''NaN'')"
| "js_truthy (JStr s) = (s \<noteq> [])"
| "js_truthy (JArr xs) = True"
| "js_truthy (JObj fs) = True"

text \<open>\<open>x || d\<close> where \<open>x\<close> may be undefined.\<close>

definition js_or :: "jvalue option \<Rightarrow> jvalue \<Rightarrow> jvalue" where
  "js_or x d = (case x of None \<Rightarrow> d | Some v \<Rightarrow> if js_truthy v then v else d)"

text \<open>
  The property reads \<open>client.needs\<close>, \<open>client.urgency\<close> and \<open>client.householdSize\<close>:
  reading from \<open>null\<close> throws; strings, numbers, booleans and arrays have no property of
  these names.
\<close>

fun js_get :: "jvalue \<Rightarrow> string \<Rightarrow> jserror + jvalue option" where
  "js_get JNull name = Inl (TypeError ''Cannot read properties of null'')"
| "js_get (JObj fs) name = Inr (map_of fs name)"
| "js_get v name = Inr None"

text \<open>\<open>needs[0]\<close> on the value of \<open>client.needs || []\<close>, which is never \<open>null\<close>.\<close>

fun js_index0 :: "jvalue \<Rightarrow> jvalue option" where
  "js_index0 (JArr xs) = (case xs of [] \<Rightarrow> None | x # _ \<Rightarrow> Some x)"
| "js_index0 (JStr s) = (case s of [] \<Rightarrow> None | c # _ \<Rightarrow> Some (JStr [c]))"
| "js_index0 (JObj fs) = map_of fs ''0''"
| "js_index0 v = None"

text \<open>
  \<open>x.includes(sub)\<close> with a string argument: a substring test on a string, a membership
  test on an array; no other JSON value has a method \<open>includes\<close>, so the call throws.
\<close>

fun js_includes :: "jvalue \<Rightarrow> string \<Rightarrow> jserror + bool" where
  "js_includes (JStr s) sub = Inr (str_includes s sub)"
| "js_includes (JArr xs) sub = Inr (JStr sub \<in> set xs)"
| "js_includes v sub = Inl (TypeError ''includes is not a function'')"

text \<open>
  A result object. Every property any tier or fallback sets is a field; \<open>None\<close> (or
  \<open>False\<close> for the two flags, which are only ever set to \<open>true\<close>) is an absent property.
  \<open>reviewDate\<close> holds the instant in milliseconds whose ISO rendering the source stores.
\<close>

record result =
  response :: "string option"
  confidence :: "real option"
  source :: "string option"
  category :: "string option"
  uncertain :: bool
  priority :: "jvalue option"
  recommendations :: "string list option"
  nextSteps :: "string list option"
  goals :: "string list option"
  tasks :: "string list option"
  resources :: "string list option"
  timeline :: "string option"
  reviewDate :: "int option"
  customizable :: bool
  tokens :: "int option"

definition empty_result :: result where
  "empty_result =
     \<lparr>response = None, confidence = None, source = None, category = None,
      uncertain = False, priority = None, recommendations = None, nextSteps = None,
      goals = None, tasks = None, resources = None, timeline = None,
      reviewDate = None, customizable = False, tokens = None\<rparr>"

section \<open>Rules tier\<close>

definition faqRules :: "(string \<times> string) list" where
  "faqRules =
    [(''housing'', ''For housing assistance, you may qualify for rapid rehousing, emergency shelter, or rental assistance. Eligibility typically requires proof of homelessness or housing instability.''),
     (''employment'', ''Employment services include job training, resume help, and placement assistance. Most programs are free and available regardless of work history.''),
     (''mental-health'', ''Mental health services include counseling, crisis support, and medication assistance. Many services are available on a sliding scale.''),
     (''veterans'', ''Veterans have access to specialized housing, healthcare, and employment programs through VA and community partners.''),
     (''substance-abuse'', ''Substance abuse support includes outpatient counseling, residential treatment, and harm reduction services.''),
     (''medical'', ''Medical services include free clinics, insurance enrollment, and specialty care referrals.''),
     (''food'', ''Food assistance includes food banks, CalFresh (SNAP), and meal programs at community centers.''),
     (''legal'', ''Legal aid includes help with housing court, benefits appeals, and family law matters.''),
     (''utilities'', ''Utility assistance programs can help with past-due bills and ongoing payment support.''),
     (''transportation'', ''Transportation help includes bus passes, rides to appointments, and vehicle repair assistance.'')]"

text \<open>The \<open>for ... of Object.entries(this.faqRules)\<close> loop: the first entry, in insertion
  order, whose category (or the category with its first hyphen turned into a space) occurs
  in the query.\<close>

fun faq_lookup :: "(string \<times> string) list \<Rightarrow> string \<Rightarrow> result option" where
  "faq_lookup [] query = None"
| "faq_lookup ((cat, resp) # rest) query =
     (if str_includes query cat \<or> str_includes query (replace_first (CHR ''-'') (CHR '' '') cat)
      then Some (empty_result\<lparr>response := Some resp, confidence := Some 0.9,
                              source := Some ''rules'', category := Some cat\<rparr>)
      else faq_lookup rest query)"

definition greeting_result :: result where
  "greeting_result =
     empty_result\<lparr>response := Some ''I can help you understand what services are available. What kind of help do you need? I can assist with housing, employment, healthcare, food, or other services.'',
                  confidence := Some 0.8, source := Some ''rules'', category := Some ''general''\<rparr>"

definition navigator_uncertain :: result where
  "navigator_uncertain =
     empty_result\<lparr>uncertain := True, confidence := Some 0.4,
                  response := Some ''I'd like to help you find the right resources. Could you tell me more specifically what kind of assistance you're looking for?''\<rparr>"

text \<open>\<open>navigatorRules\<close>. \<open>input.toLowerCase()\<close> throws a TypeError on every input that is
  not a string.\<close>

fun navigatorRules :: "jvalue \<Rightarrow> jserror + result" where
  "navigatorRules (JStr s) =
     (let query = toLowerCase s in
      case faq_lookup faqRules query of
        Some r \<Rightarrow> Inr r
      | None \<Rightarrow>
          if str_includes query ''help'' \<or> str_includes query ''hello'' \<or> str_includes query ''start''
          then Inr greeting_result
          else Inr navigator_uncertain)"
| "navigatorRules JNull = Inl (TypeError ''Cannot read properties of null'')"
| "navigatorRules v = Inl (TypeError ''input.toLowerCase is not a function'')"

definition urgent_housing :: result where
  "urgent_housing =
     empty_result\<lparr>priority := Some (JStr ''urgent''),
        recommendations := Some [''Emergency shelter placement needed within 24 hours'',
                                 ''Rapid rehousing assessment required'',
                                 ''Connect with housing navigator immediately''],
        nextSteps := Some [''Schedule emergency housing meeting'', ''Gather housing documents'',
                           ''Contact emergency shelter''],
        confidence := Some 0.95, source := Some ''rules''\<rparr>"

definition urgent_crisis :: result where
  "urgent_crisis =
     empty_result\<lparr>priority := Some (JStr ''urgent''),
        recommendations := Some [''Crisis assessment required'',
                                 ''Mental health evaluation needed'',
                                 ''Safety planning essential''],
        nextSteps := Some [''Schedule crisis assessment'', ''Provide crisis hotline numbers'',
                           ''Create safety plan''],
        confidence := Some 0.95, source := Some ''rules''\<rparr>"

text \<open>The \<open>switch\<close> in the \<open>needs.forEach\<close> loop of the method \<open>triageRules\<close>, run over
  the elements of the array: the accumulator is the pair of the \<open>recommendations\<close> and
  \<open>nextSteps\<close> arrays, pushed to in step. The cases compare with \<open>===\<close>.\<close>

fun collect_needs :: "jvalue list \<Rightarrow> string list \<times> string list \<Rightarrow> string list \<times> string list" where
  "collect_needs [] acc = acc"
| "collect_needs (need # rest) (recs, steps) =
     (if need = JStr ''housing''
      then collect_needs rest (recs @ [''Housing assessment and application''],
                               steps @ [''Complete housing intake form''])
      else if need = JStr ''employment''
      then collect_needs rest (recs @ [''Job readiness assessment''],
                               steps @ [''Schedule employment counseling''])
      else if need = JStr ''medical''
      then collect_needs rest (recs @ [''Healthcare enrollment assistance''],
                               steps @ [''Schedule medical intake appointment''])
      else collect_needs rest (recs, steps))"

text \<open>The part of the method \<open>triageRules\<close> after the urgent cases. Only an array has
  \<open>forEach\<close>.\<close>

fun triage_medium :: "jvalue \<Rightarrow> jvalue \<Rightarrow> jserror + result" where
  "triage_medium (JArr xs) urgency =
     (case collect_needs xs ([], []) of
        (recs, steps) \<Rightarrow>
          Inr (empty_result\<lparr>priority := Some urgency, recommendations := Some recs,
                             nextSteps := Some steps, confidence := Some 0.8,
                             source := Some ''rules''\<rparr>))"
| "triage_medium v urgency = Inl (TypeError ''needs.forEach is not a function'')"

text \<open>
  The method \<open>triageRules\<close> of the class (lines 138 to 202). The router never runs it: see
  \<open>tryRulesFirst\<close>.
\<close>

definition triageRules :: "jvalue \<Rightarrow> jserror + result" where
  "triageRules cl =
     (case js_get cl ''needs'' of
        Inl err \<Rightarrow> Inl err
      | Inr n \<Rightarrow>
     (case js_get cl ''urgency'' of
        Inl err \<Rightarrow> Inl err
      | Inr u \<Rightarrow>
     (case js_get cl ''householdSize'' of
        Inl err \<Rightarrow> Inl err
      | Inr h \<Rightarrow>
          let needs = js_or n (JArr []);
              urgency = js_or u (JStr ''medium'');
              householdSize = js_or h (JNum ''1'')
          in
          if urgency = JStr ''high'' \<or> urgency = JStr ''critical''
          then (case js_includes needs ''housing'' of
                  Inl err \<Rightarrow> Inl err
                | Inr housing \<Rightarrow>
                    if housing then Inr urgent_housing
                    else (case js_includes needs ''mental-health'' of
                            Inl err \<Rightarrow> Inl err
                          | Inr mental \<Rightarrow>
                              (case (if mental then Inr True
                                     else js_includes needs ''substance-abuse'') of
                                 Inl err \<Rightarrow> Inl err
                               | Inr crisis \<Rightarrow>
                                   if crisis then Inr urgent_crisis
                                   else triage_medium needs urgency)))
          else triage_medium needs urgency)))"

record template =
  t_goals :: "string list"
  t_tasks :: "string list"
  t_resources :: "string list"

definition housing_focused :: template where
  "housing_focused =
     \<lparr>t_goals = [''Secure stable housing within 90 days'', ''Maintain housing stability''],
      t_tasks = [''Complete housing application'', ''Gather required documents'',
                 ''Attend housing appointments''],
      t_resources = [''Rapid Rehousing Program'', ''Housing Authority waitlist'',
                     ''Emergency rental assistance'']\<rparr>"

definition employment_focused :: template where
  "employment_focused =
     \<lparr>t_goals = [''Obtain sustainable employment'', ''Increase job skills''],
      t_tasks = [''Update resume'', ''Apply for job training'', ''Attend job interviews''],
      t_resources = [''WorkForce Development'', ''One-Stop Career Center'',
                     ''Skills training programs'']\<rparr>"

definition health_focused :: template where
  "health_focused =
     \<lparr>t_goals = [''Establish primary care'', ''Manage chronic conditions''],
      t_tasks = [''Schedule medical appointment'', ''Apply for health insurance'',
                 ''Follow medication schedule''],
      t_resources = [''Community Health Center'', ''Medi-Cal enrollment'',
                     ''Pharmacy assistance'']\<rparr>"

text \<open>The object \<open>careplanRules\<close> returns for a template; \<open>now\<close> is the reading of
  \<open>Date.now()\<close>.\<close>

definition careplan_result :: "int \<Rightarrow> template \<Rightarrow> result" where
  "careplan_result now template =
     empty_result\<lparr>goals := Some (t_goals template), tasks := Some (t_tasks template),
                  resources := Some (t_resources template), timeline := Some ''90 days'',
                  reviewDate := Some (now + 30 * 24 * 60 * 60 * 1000),
                  confidence := Some 0.8, source := Some ''rules'',
                  customizable := True\<rparr>"

text \<open>\<open>careplanRules\<close>. The calls of \<open>primaryNeed.includes\<close> throw when the first need is
  neither a string nor an array.\<close>

definition careplanRules :: "int \<Rightarrow> jvalue \<Rightarrow> jserror + result" where
  "careplanRules now cl =
     (case js_get cl ''needs'' of
        Inl err \<Rightarrow> Inl err
      | Inr n \<Rightarrow>
          let needs = js_or n (JArr []);
              primaryNeed = js_or (js_index0 needs) (JStr ''general'')
          in
          (case js_includes primaryNeed ''employment'' of
             Inl err \<Rightarrow> Inl err
           | Inr employment \<Rightarrow>
               if employment then Inr (careplan_result now employment_focused)
               else (case js_includes primaryNeed ''medical'' of
                       Inl err \<Rightarrow> Inl err
                     | Inr medical \<Rightarrow>
                         (case (if medical then Inr True
                                else js_includes primaryNeed ''mental-health'') of
                            Inl err \<Rightarrow> Inl err
                          | Inr health \<Rightarrow>
                              if health then Inr (careplan_result now health_focused)
                              else Inr (careplan_result now housing_focused)))))"

text \<open>
  \<open>tryRulesFirst\<close>. For \<open>triage\<close> the source calls \<open>this.triageRules(input, options)\<close>, but
  the constructor has assigned the table of triage texts to \<open>this.triageRules\<close>: this own
  property hides the method of the class, the value called is an object, and the call
  throws a TypeError for every input.
\<close>

definition tryRulesFirst :: "int \<Rightarrow> string \<Rightarrow> jvalue \<Rightarrow> jserror + result" where
  "tryRulesFirst now task inp =
     (if task = ''navigator'' then navigatorRules inp
      else if task = ''triage'' then Inl (TypeError ''this.triageRules is not a function'')
      else if task = ''careplan'' then careplanRules now inp
      else Inr (empty_result\<lparr>uncertain := True, confidence := Some 0.3\<rparr>))"

section \<open>Cost guard\<close>

record stats =
  cacheHits :: nat
  cacheMisses :: nat
  cheapCalls :: nat
  expensiveCalls :: nat
  totalTokens :: int
  dailyTokens :: int
  lastResetDate :: string

record guard_config =
  maxDailyTokens :: int
  maxCheapTokens :: int
  maxExpensiveTokens :: int
  defaultTTL :: int

record entry =
  data :: result
  expiry :: int

text \<open>The cache is a JavaScript \<open>Map\<close>: an association list in insertion order, with
  \<open>set\<close> as \<open>AList.update\<close> and \<open>delete\<close> as \<open>AList.delete\<close>.\<close>

record cost_guard =
  cache :: "(string \<times> entry) list"
  stats :: stats
  gconfig :: guard_config

text \<open>
  The configuration object handed to both constructors (\<open>index.js\<close> builds it from the
  environment). \<open>None\<close> is an absent key.
\<close>

record router_config =
  AI_ENABLE :: bool
  OPENAI_API_KEY :: string
  AI_MAX_TOKENS_CHEAP :: "int option"
  AI_MAX_TOKENS_EXPENSIVE :: "int option"
  CACHE_TTL_FAQ :: "int option"
  CACHE_TTL_TRIAGE :: "int option"

text \<open>The \<open>CostGuard\<close> constructor; \<open>today\<close> is \<open>new Date().toDateString()\<close>.\<close>

definition newCostGuard :: "router_config \<Rightarrow> string \<Rightarrow> cost_guard" where
  "newCostGuard cfg today =
     \<lparr>cache = [],
      stats = \<lparr>cacheHits = 0, cacheMisses = 0, cheapCalls = 0, expensiveCalls = 0,
               totalTokens = 0, dailyTokens = 0, lastResetDate = today\<rparr>,
      gconfig = \<lparr>maxDailyTokens = 10000,
                 maxCheapTokens = num_or (AI_MAX_TOKENS_CHEAP cfg) 256,
                 maxExpensiveTokens = num_or (AI_MAX_TOKENS_EXPENSIVE cfg) 512,
                 defaultTTL = 3600\<rparr>\<rparr>"

text \<open>
  \<open>hashRequest\<close>. The router always passes a string as \<open>input\<close>, so \<open>normalized\<close> is that
  string. The MD5 hex digest and \<open>JSON.stringify\<close> belong to the platform and are the
  parameters \<open>md5hex\<close> and \<open>json\<close>.
\<close>

definition hashRequest :: "(string \<Rightarrow> string) \<Rightarrow> ('o \<Rightarrow> string) \<Rightarrow> string \<Rightarrow> 'o \<Rightarrow> string" where
  "hashRequest md5hex json inp options =
     (let normalized = inp; optionsStr = json options in md5hex (normalized @ optionsStr))"

text \<open>\<open>cacheGet\<close>; \<open>now\<close> is the reading of \<open>Date.now()\<close>.\<close>

definition cacheGet :: "int \<Rightarrow> string \<Rightarrow> cost_guard \<Rightarrow> result option \<times> cost_guard" where
  "cacheGet now key g =
     (case map_of (cache g) key of
        Some e \<Rightarrow>
          if expiry e > now
          then (Some (data e), g\<lparr>stats := (stats g)\<lparr>cacheHits := cacheHits (stats g) + 1\<rparr>\<rparr>)
          else (None, g\<lparr>cache := AList.delete key (cache g),
                         stats := (stats g)\<lparr>cacheMisses := cacheMisses (stats g) + 1\<rparr>\<rparr>)
      | None \<Rightarrow> (None, g\<lparr>stats := (stats g)\<lparr>cacheMisses := cacheMisses (stats g) + 1\<rparr>\<rparr>))"

text \<open>\<open>cacheSet\<close>; \<open>ttlSeconds = None\<close> is the default \<open>null\<close>.\<close>

definition cacheSet :: "int \<Rightarrow> string \<Rightarrow> result \<Rightarrow> int option \<Rightarrow> cost_guard \<Rightarrow> cost_guard" where
  "cacheSet now key d ttlSeconds g =
     (let ttl = num_or ttlSeconds (defaultTTL (gconfig g)) in
      g\<lparr>cache := AList.update key \<lparr>data = d, expiry = now + ttl * 1000\<rparr> (cache g)\<rparr>)"

text \<open>\<open>resetDailyCountersIfNeeded\<close>; \<open>today\<close> is \<open>new Date().toDateString()\<close>.\<close>

definition resetDailyCountersIfNeeded :: "string \<Rightarrow> cost_guard \<Rightarrow> cost_guard" where
  "resetDailyCountersIfNeeded today g =
     (if lastResetDate (stats g) \<noteq> today
      then g\<lparr>stats := (stats g)\<lparr>dailyTokens := 0, lastResetDate := today\<rparr>\<rparr>
      else g)"

definition canMakeCall :: "string \<Rightarrow> int \<Rightarrow> string \<Rightarrow> cost_guard \<Rightarrow> bool \<times> cost_guard" where
  "canMakeCall today tokenCount type g =
     (let g1 = resetDailyCountersIfNeeded today g in
      if dailyTokens (stats g1) + tokenCount > maxDailyTokens (gconfig g1) then (False, g1)
      else
        let maxTokens = (if type = ''expensive'' then maxExpensiveTokens (gconfig g1)
                         else maxCheapTokens (gconfig g1)) in
        if tokenCount > maxTokens then (False, g1) else (True, g1))"

text \<open>
  \<open>withBudget\<close>. The operation \<open>fn\<close> acts on the part \<open>'w\<close> of the world outside the guard
  and either throws or returns a value; it is run only in the branch that awaits it.
\<close>

definition withBudget ::
  "string \<Rightarrow> string \<Rightarrow> ('w \<Rightarrow> (jserror + 'a) \<times> 'w) \<Rightarrow> int \<Rightarrow> string \<Rightarrow> cost_guard \<Rightarrow> 'w
     \<Rightarrow> (jserror + 'a) \<times> cost_guard \<times> 'w" where
  "withBudget today label fn estimatedTokens type g w =
     (case canMakeCall today estimatedTokens type g of
        (False, g1) \<Rightarrow>
          (Inl (BudgetExceeded label (maxDailyTokens (gconfig g1)) (dailyTokens (stats g1))), g1, w)
      | (True, g1) \<Rightarrow>
          (case fn w of
             (Inr res, w1) \<Rightarrow>
               (let st = stats g1;
                    st1 = st\<lparr>totalTokens := totalTokens st + estimatedTokens,
                             dailyTokens := dailyTokens st + estimatedTokens\<rparr>;
                    st2 = (if type = ''expensive''
                           then st1\<lparr>expensiveCalls := expensiveCalls st1 + 1\<rparr>
                           else st1\<lparr>cheapCalls := cheapCalls st1 + 1\<rparr>)
                in (Inr res, g1\<lparr>stats := st2\<rparr>, w1))
           | (Inl err, w1) \<Rightarrow> (Inl err, g1, w1)))"

text \<open>
  \<open>CostGuard.getStats\<close>: the counters after the lazy reset, and the cache size. The three
  figures the source renders with \<open>toFixed\<close> are left out.
\<close>

record guard_stats =
  gs_stats :: stats
  gs_cacheSize :: nat

definition guard_getStats :: "string \<Rightarrow> cost_guard \<Rightarrow> guard_stats \<times> cost_guard" where
  "guard_getStats today g =
     (let g1 = resetDailyCountersIfNeeded today g in
      (\<lparr>gs_stats = stats g1, gs_cacheSize = length (cache g1)\<rparr>, g1))"

text \<open>\<open>setEmergencyLimits\<close>: the keys present in \<open>limits\<close> replace those of the configuration.\<close>

record guard_limits =
  lim_maxDailyTokens :: "int option"
  lim_maxCheapTokens :: "int option"
  lim_maxExpensiveTokens :: "int option"
  lim_defaultTTL :: "int option"

definition setEmergencyLimits :: "guard_limits \<Rightarrow> cost_guard \<Rightarrow> cost_guard" where
  "setEmergencyLimits limits g =
     g\<lparr>gconfig :=
         \<lparr>maxDailyTokens = (case lim_maxDailyTokens limits of None \<Rightarrow> maxDailyTokens (gconfig g) | Some v \<Rightarrow> v),
          maxCheapTokens = (case lim_maxCheapTokens limits of None \<Rightarrow> maxCheapTokens (gconfig g) | Some v \<Rightarrow> v),
          maxExpensiveTokens = (case lim_maxExpensiveTokens limits of None \<Rightarrow> maxExpensiveTokens (gconfig g) | Some v \<Rightarrow> v),
          defaultTTL = (case lim_defaultTTL limits of None \<Rightarrow> defaultTTL (gconfig g) | Some v \<Rightarrow> v)\<rparr>\<rparr>"

section \<open>Router\<close>

text \<open>A value of \<open>this.enabled\<close>: \<open>a && b\<close> is \<open>a\<close> when \<open>a\<close> is falsy and \<open>b\<close> otherwise.\<close>

datatype js_value = JBoolean bool | JString string

fun truthy :: "js_value \<Rightarrow> bool" where
  "truthy (JBoolean b) = b"
| "truthy (JString s) = (s \<noteq> [])"

definition enabled :: "router_config \<Rightarrow> js_value" where
  "enabled cfg = (if AI_ENABLE cfg then JString (OPENAI_API_KEY cfg) else JBoolean (AI_ENABLE cfg))"

text \<open>
  The readings of the clock during one \<open>route\<close> call, one per place that reads it:
  \<open>Date.now()\<close> in \<open>cacheGet\<close>, in \<open>careplanRules\<close> and in \<open>cacheSet\<close>, and
  \<open>toDateString()\<close> in the budget check of the cheap and of the expensive tier.
\<close>

record clock =
  t_get :: int
  t_rules :: int
  d_cheap :: string
  d_expensive :: string
  t_set :: int

text \<open>
  A log of what a call did, kept beside the state to state which tiers ran:
  \<open>Invoked t\<close> when the resolver of tier \<open>t\<close> is called, \<open>Generated t\<close> when the guarded
  operation of a model tier runs.
\<close>

datatype tier = Rules | Cheap | Expensive

datatype event = Invoked tier | Generated tier

definition shouldEscalate :: "result \<Rightarrow> bool" where
  "shouldEscalate r =
     (uncertain r \<or> (case confidence r of None \<Rightarrow> False | Some c \<Rightarrow> c < 0.7))"

text \<open>An absent \<open>estimatedTokens\<close> argument takes the default 100 of \<open>withBudget\<close>.\<close>

definition cheap_response :: "router_config \<Rightarrow> string \<Rightarrow> result" where
  "cheap_response cfg task =
     empty_result\<lparr>response := Some (''Enhanced response for '' @ task @ '' (cheap model)''),
                  confidence := Some 0.7, source := Some ''cheap-model'',
                  tokens := AI_MAX_TOKENS_CHEAP cfg\<rparr>"

text \<open>The placeholder closure passed to \<open>withBudget\<close>: it waits and returns; it never throws.\<close>

definition cheap_operation :: "router_config \<Rightarrow> string \<Rightarrow> event list \<Rightarrow> (jserror + result) \<times> event list" where
  "cheap_operation cfg task w = (Inr (cheap_response cfg task), w @ [Generated Cheap])"

definition tryCheapModel ::
  "router_config \<Rightarrow> string \<Rightarrow> string \<Rightarrow> cost_guard \<Rightarrow> event list
     \<Rightarrow> (jserror + result) \<times> cost_guard \<times> event list" where
  "tryCheapModel cfg today task g w =
     (if \<not> truthy (enabled cfg)
      then (Inr (empty_result\<lparr>uncertain := True, confidence := Some 0.3\<rparr>), g, w)
      else withBudget today (''cheap-'' @ task) (cheap_operation cfg task)
             (case AI_MAX_TOKENS_CHEAP cfg of None \<Rightarrow> 100 | Some n \<Rightarrow> n) ''cheap'' g w)"

definition expensive_response :: "router_config \<Rightarrow> string \<Rightarrow> result" where
  "expensive_response cfg task =
     empty_result\<lparr>response := Some (''Detailed response for '' @ task @ '' (expensive model)''),
                  confidence := Some 0.95, source := Some ''expensive-model'',
                  tokens := AI_MAX_TOKENS_EXPENSIVE cfg\<rparr>"

definition expensive_operation :: "router_config \<Rightarrow> string \<Rightarrow> event list \<Rightarrow> (jserror + result) \<times> event list" where
  "expensive_operation cfg task w = (Inr (expensive_response cfg task), w @ [Generated Expensive])"

definition tryExpensiveModel ::
  "router_config \<Rightarrow> string \<Rightarrow> string \<Rightarrow> cost_guard \<Rightarrow> event list
     \<Rightarrow> (jserror + result) \<times> cost_guard \<times> event list" where
  "tryExpensiveModel cfg today task g w =
     (if \<not> truthy (enabled cfg)
      then (Inr (empty_result\<lparr>uncertain := True, confidence := Some 0.3\<rparr>), g, w)
      else withBudget today (''expensive-'' @ task) (expensive_operation cfg task)
             (case AI_MAX_TOKENS_EXPENSIVE cfg of None \<Rightarrow> 100 | Some n \<Rightarrow> n) ''expensive'' g w)"

definition getTTL :: "router_config \<Rightarrow> string \<Rightarrow> int" where
  "getTTL cfg task =
     (if task = ''navigator'' then num_or (CACHE_TTL_FAQ cfg) 86400
      else if task = ''triage'' then num_or (CACHE_TTL_TRIAGE cfg) 7200
      else if task = ''careplan'' then num_or (CACHE_TTL_TRIAGE cfg) 7200
      else 3600)"

definition getFallbackResponse :: "string \<Rightarrow> result" where
  "getFallbackResponse task =
     (if task = ''navigator''
      then empty_result\<lparr>response := Some ''I'm here to help connect you with services. Please let a caseworker know what specific assistance you need.'',
                         confidence := Some 0.5, source := Some ''fallback''\<rparr>
      else if task = ''triage''
      then empty_result\<lparr>priority := Some (JStr ''medium''),
                         recommendations := Some [''General assessment needed'', ''Schedule intake appointment''],
                         nextSteps := Some [''Contact caseworker'', ''Gather documentation''],
                         confidence := Some 0.5, source := Some ''fallback''\<rparr>
      else if task = ''careplan''
      then empty_result\<lparr>goals := Some [''Stabilize current situation'', ''Connect with appropriate services''],
                         tasks := Some [''Meet with caseworker'', ''Complete assessments''],
                         resources := Some [''Case management services'', ''Community resources''],
                         confidence := Some 0.5, source := Some ''fallback''\<rparr>
      else empty_result\<lparr>response := Some ''Service temporarily unavailable. Please contact your caseworker.'',
                         confidence := Some 0.3, source := Some ''fallback''\<rparr>)"

text \<open>The body of the \<open>try\<close> block of \<open>route\<close> up to the final \<open>result\<close>: the three steps
  of the escalation. Nothing after it in the block (\<open>getTTL\<close>, \<open>cacheSet\<close>) can throw.\<close>

definition route_try ::
  "router_config \<Rightarrow> clock \<Rightarrow> string \<Rightarrow> jvalue \<Rightarrow> cost_guard \<Rightarrow> event list
     \<Rightarrow> (jserror + result) \<times> cost_guard \<times> event list" where
  "route_try cfg clk task inp g w =
     (case tryRulesFirst (t_rules clk) task inp of
        Inl err \<Rightarrow> (Inl err, g, w @ [Invoked Rules])
      | Inr result \<Rightarrow>
          if shouldEscalate result \<and> truthy (enabled cfg)
          then (case tryCheapModel cfg (d_cheap clk) task g (w @ [Invoked Rules, Invoked Cheap]) of
                  (Inl err, g2, w2) \<Rightarrow> (Inl err, g2, w2)
                | (Inr result2, g2, w2) \<Rightarrow>
                    if shouldEscalate result2 \<and> truthy (enabled cfg)
                    then tryExpensiveModel cfg (d_expensive clk) task g2 (w2 @ [Invoked Expensive])
                    else (Inr result2, g2, w2))
          else (Inr result, g, w @ [Invoked Rules]))"

text \<open>
  \<open>route\<close>. The value is \<open>Inr\<close> for a returned result and \<open>Inl\<close> for a rejected promise.
  The key is computed before the \<open>try\<close> block: an error thrown by the template literal
  \<open>`${task}:${input}`\<close> is not caught, and the promise rejects with it. The \<open>input\<close> and
  \<open>options\<close> arguments that the model tiers and the fallback ignore are not passed on to
  them.
\<close>

definition route ::
  "(string \<Rightarrow> string) \<Rightarrow> ('o \<Rightarrow> string) \<Rightarrow> router_config \<Rightarrow> clock \<Rightarrow> string \<Rightarrow> jvalue \<Rightarrow> 'o
     \<Rightarrow> cost_guard \<Rightarrow> event list \<Rightarrow> (jserror + result) \<times> cost_guard \<times> event list" where
  "route md5hex json cfg clk task inp options g w =
     (case js_toString inp of
        Inl err \<Rightarrow> (Inl err, g, w)
      | Inr text \<Rightarrow>
          let cacheKey = hashRequest md5hex json (task @ '':'' @ text) options in
          case cacheGet (t_get clk) cacheKey g of
            (Some cached, g1) \<Rightarrow> (Inr cached, g1, w)
          | (None, g1) \<Rightarrow>
              (case route_try cfg clk task inp g1 w of
                 (Inr result, g2, w2) \<Rightarrow>
                   (Inr result, cacheSet (t_set clk) cacheKey result (Some (getTTL cfg task)) g2, w2)
               | (Inl err, g2, w2) \<Rightarrow> (Inr (getFallbackResponse task), g2, w2)))"

text \<open>\<open>AIRouter.getStats\<close>: \<open>this.enabled\<close> beside the guard's statistics.\<close>

record router_stats =
  rs_enabled :: js_value
  rs_guard :: guard_stats

definition getStats :: "router_config \<Rightarrow> string \<Rightarrow> cost_guard \<Rightarrow> router_stats \<times> cost_guard" where
  "getStats cfg today g =
     (case guard_getStats today g of
        (gs, g1) \<Rightarrow> (\<lparr>rs_enabled = enabled cfg, rs_guard = gs\<rparr>, g1))"

section \<open>Notions used to state the properties\<close>

text \<open>The \<open>cacheKey\<close> constant of \<open>route\<close>, for an input that has a string conversion.\<close>

definition cacheKey :: "(string \<Rightarrow> string) \<Rightarrow> ('o \<Rightarrow> string) \<Rightarrow> string \<Rightarrow> jvalue \<Rightarrow> 'o \<Rightarrow> string" where
  "cacheKey md5hex json task inp options =
     hashRequest md5hex json (task @ '':'' @ projr (js_toString inp)) options"

text \<open>
  The error that keeps a call of \<open>route\<close> from its normal end, if there is one: the error
  thrown while the key is computed (the promise rejects), or the error that reaches the
  \<open>catch\<close> block (the fallback is returned).
\<close>

definition route_failure ::
  "(string \<Rightarrow> string) \<Rightarrow> ('o \<Rightarrow> string) \<Rightarrow> router_config \<Rightarrow> clock \<Rightarrow> string \<Rightarrow> jvalue \<Rightarrow> 'o
     \<Rightarrow> cost_guard \<Rightarrow> event list \<Rightarrow> jserror option" where
  "route_failure md5hex json cfg clk task inp options g w =
     (case js_toString inp of
        Inl err \<Rightarrow> Some err
      | Inr text \<Rightarrow>
          (case cacheGet (t_get clk) (cacheKey md5hex json task inp options) g of
             (Some cached, g1) \<Rightarrow> None
           | (None, g1) \<Rightarrow>
               (case route_try cfg clk task inp g1 w of
                  (Inr result, g2, w2) \<Rightarrow> None
                | (Inl err, g2, w2) \<Rightarrow> Some err)))"

text \<open>A sequence of \<open>route\<close> calls on the shared guard, one after the other.\<close>

record 'o request =
  rq_clock :: clock
  rq_task :: string
  rq_input :: jvalue
  rq_options :: 'o

fun route_all ::
  "(string \<Rightarrow> string) \<Rightarrow> ('o \<Rightarrow> string) \<Rightarrow> router_config \<Rightarrow> 'o request list
     \<Rightarrow> cost_guard \<Rightarrow> event list \<Rightarrow> (jserror + result) list \<times> cost_guard \<times> event list" where
  "route_all md5hex json cfg [] g w = ([], g, w)"
| "route_all md5hex json cfg (rq # rqs) g w =
     (case route md5hex json cfg (rq_clock rq) (rq_task rq) (rq_input rq) (rq_options rq) g w of
        (out, g1, w1) \<Rightarrow>
          (case route_all md5hex json cfg rqs g1 w1 of
             (outs, g2, w2) \<Rightarrow> (out # outs, g2, w2)))"

text \<open>
  Concrete data for the examples. \<open>demo_md5\<close> and \<open>demo_json\<close> stand in for the platform's
  digest and serialiser on the single options value \<open>()\<close>, the empty object.
\<close>

definition demo_md5 :: "string \<Rightarrow> string" where
  "demo_md5 s = s"

definition demo_json :: "unit \<Rightarrow> string" where
  "demo_json u = ''{}''"

definition demo_day :: string where
  "demo_day = ''Mon Nov 02 2026''"

definition demo_clock :: clock where
  "demo_clock = \<lparr>t_get = 1000, t_rules = 1001, d_cheap = demo_day, d_expensive = demo_day, t_set = 1600\<rparr>"


definition config_ai_on :: router_config where
  "config_ai_on =
     \<lparr>AI_ENABLE = True, OPENAI_API_KEY = ''sk-test-123'', AI_MAX_TOKENS_CHEAP = Some 256,
      AI_MAX_TOKENS_EXPENSIVE = Some 512, CACHE_TTL_FAQ = Some 86400, CACHE_TTL_TRIAGE = Some 7200\<rparr>"

text \<open>A guard late on the first of November: 36 cheap calls of 256 tokens were charged.\<close>

definition stale_guard :: cost_guard where
  "stale_guard =
     \<lparr>cache = [],
      stats = \<lparr>cacheHits = 0, cacheMisses = 36, cheapCalls = 36, expensiveCalls = 0,
               totalTokens = 9216, dailyTokens = 9216, lastResetDate = ''Sun Nov 01 2026''\<rparr>,
      gconfig = \<lparr>maxDailyTokens = 10000, maxCheapTokens = 256, maxExpensiveTokens = 512,
                 defaultTTL = 3600\<rparr>\<rparr>"

text \<open>An operation that throws, as a provider call that times out would.\<close>

definition failing_operation :: "event list \<Rightarrow> (jserror + result) \<times> event list" where
  "failing_operation w = (Inl (OperationFailed ''timeout''), w @ [Generated Cheap])"

text \<open>The clients \<open>{needs: ["housing"], urgency: "critical"}\<close> and
  \<open>{needs: ["employment"], urgency: "low", householdSize: 2}\<close>.\<close>

definition critical_housing_client :: jvalue where
  "critical_housing_client =
     JObj [(''needs'', JArr [JStr ''housing'']), (''urgency'', JStr ''critical'')]"

definition employment_client :: jvalue where
  "employment_client =
     JObj [(''needs'', JArr [JStr ''employment'']), (''urgency'', JStr ''low''),
           (''householdSize'', JNum ''2'')]"

text \<open>The value of \<open>req.body.query\<close> for the request body \<open>{"query": {"toString": "x"}}\<close>.\<close>

definition unprintable_query :: jvalue where
  "unprintable_query = JObj [(''toString'', JStr ''x'')]"

text \<open>One hour after \<open>demo_clock\<close>.\<close>

definition later_clock :: clock where
  "later_clock =
     \<lparr>t_get = 3601000, t_rules = 3601001, d_cheap = demo_day, d_expensive = demo_day,
      t_set = 3601600\<rparr>"

text \<open>A guard on which 39 cheap calls of 256 tokens were charged today.\<close>

definition exhausted_guard :: cost_guard where
  "exhausted_guard =
     \<lparr>cache = [],
      stats = \<lparr>cacheHits = 0, cacheMisses = 39, cheapCalls = 39, expensiveCalls = 0,
               totalTokens = 9984, dailyTokens = 9984, lastResetDate = demo_day\<rparr>,
      gconfig = \<lparr>maxDailyTokens = 10000, maxCheapTokens = 256, maxExpensiveTokens = 512,
                 defaultTTL = 3600\<rparr>\<rparr>"

text \<open>The cache key of a request of a sequence.\<close>

definition request_key :: "(string \<Rightarrow> string) \<Rightarrow> ('o \<Rightarrow> string) \<Rightarrow> 'o request \<Rightarrow> string" where
  "request_key md5hex json rq = cacheKey md5hex json (rq_task rq) (rq_input rq) (rq_options rq)"

text \<open>A fresh guard whose daily ceiling was lowered to 600 tokens.\<close>

definition limited_guard :: cost_guard where
  "limited_guard =
     setEmergencyLimits
       \<lparr>lim_maxDailyTokens = Some 600, lim_maxCheapTokens = None,
        lim_maxExpensiveTokens = None, lim_defaultTTL = None\<rparr>
       (newCostGuard config_ai_on demo_day)"

definition navigator_request :: "string \<Rightarrow> unit request" where
  "navigator_request q =
     \<lparr>rq_clock = demo_clock, rq_task = ''navigator'', rq_input = JStr q, rq_options = ()\<rparr>"



text \<open>The guard and the log after the navigator call for \<open>I need help with housing\<close> on a
  fresh guard.\<close>

definition after_first_query :: "cost_guard \<times> event list" where
  "after_first_query =
     snd (route demo_md5 demo_json config_ai_on demo_clock ''navigator''
            (JStr ''I need help with housing'') () (newCostGuard config_ai_on demo_day) [])"

definition three_requests :: "unit request list" where
  "three_requests =
     [navigator_request ''I lost my wallet'', navigator_request ''my phone bill'',
      navigator_request ''need a haircut'']"

text \<open>The answer of the rules tier to a query that names housing.\<close>

definition housing_answer :: result where
  "housing_answer =
     empty_result\<lparr>response := Some ''For housing assistance, you may qualify for rapid rehousing, emergency shelter, or rental assistance. Eligibility typically requires proof of homelessness or housing instability.'',
                  confidence := Some 0.9, source := Some ''rules'', category := Some ''housing''\<rparr>"

section \<open>Basic facts about the guard and the router\<close>

lemma getTTL_nonzero: "getTTL cfg task \<noteq> 0"
  by (simp add: getTTL_def num_or_def split: option.splits)

lemma reset_same_day:
  "lastResetDate (stats g) = today \<Longrightarrow> resetDailyCountersIfNeeded today g = g"
  by (simp add: resetDailyCountersIfNeeded_def)

lemma reset_new_day:
  "lastResetDate (stats g) \<noteq> today \<Longrightarrow>
     resetDailyCountersIfNeeded today g =
       g\<lparr>stats := (stats g)\<lparr>dailyTokens := 0, lastResetDate := today\<rparr>\<rparr>"
  by (simp add: resetDailyCountersIfNeeded_def)

lemma reset_idem:
  "resetDailyCountersIfNeeded today (resetDailyCountersIfNeeded today g) =
     resetDailyCountersIfNeeded today g"
  by (simp add: resetDailyCountersIfNeeded_def)

lemma reset_frame:
  "cache (resetDailyCountersIfNeeded today g) = cache g"
  "gconfig (resetDailyCountersIfNeeded today g) = gconfig g"
  "cacheHits (stats (resetDailyCountersIfNeeded today g)) = cacheHits (stats g)"
  "cacheMisses (stats (resetDailyCountersIfNeeded today g)) = cacheMisses (stats g)"
  "cheapCalls (stats (resetDailyCountersIfNeeded today g)) = cheapCalls (stats g)"
  "expensiveCalls (stats (resetDailyCountersIfNeeded today g)) = expensiveCalls (stats g)"
  "totalTokens (stats (resetDailyCountersIfNeeded today g)) = totalTokens (stats g)"
  "lastResetDate (stats (resetDailyCountersIfNeeded today g)) = today"
  by (simp_all add: resetDailyCountersIfNeeded_def)

lemma canMakeCall_state:
  "snd (canMakeCall today n ty g) = resetDailyCountersIfNeeded today g"
  by (simp add: canMakeCall_def Let_def)

lemma canMakeCall_value:
  "fst (canMakeCall today n ty g) \<longleftrightarrow>
     n \<le> (if ty = ''expensive'' then maxExpensiveTokens (gconfig g) else maxCheapTokens (gconfig g))
     \<and> dailyTokens (stats (resetDailyCountersIfNeeded today g)) + n \<le> maxDailyTokens (gconfig g)"
  by (auto simp add: canMakeCall_def Let_def reset_frame)

lemma canMakeCall_eq:
  "canMakeCall today n ty g = (fst (canMakeCall today n ty g), resetDailyCountersIfNeeded today g)"
  by (simp add: canMakeCall_def Let_def)

lemma withBudget_rejected:
  assumes "\<not> fst (canMakeCall today est ty g)"
  shows "withBudget today label fn est ty g w =
           (Inl (BudgetExceeded label (maxDailyTokens (gconfig g))
                   (dailyTokens (stats (resetDailyCountersIfNeeded today g)))),
            resetDailyCountersIfNeeded today g, w)"
  using assms by (subst withBudget_def, subst canMakeCall_eq) (simp add: reset_frame)

lemma withBudget_failed:
  assumes "fst (canMakeCall today est ty g)" and "fn w = (Inl err, w1)"
  shows "withBudget today label fn est ty g w = (Inl err, resetDailyCountersIfNeeded today g, w1)"
  using assms by (subst withBudget_def, subst canMakeCall_eq) simp

lemma withBudget_charged:
  assumes "fst (canMakeCall today est ty g)" and "fn w = (Inr res, w1)"
  shows "\<exists>g1. withBudget today label fn est ty g w = (Inr res, g1, w1)
           \<and> cache g1 = cache g \<and> gconfig g1 = gconfig g
           \<and> lastResetDate (stats g1) = today
           \<and> cacheHits (stats g1) = cacheHits (stats g)
           \<and> cacheMisses (stats g1) = cacheMisses (stats g)
           \<and> dailyTokens (stats g1) = dailyTokens (stats (resetDailyCountersIfNeeded today g)) + est
           \<and> totalTokens (stats g1) = totalTokens (stats g) + est
           \<and> cheapCalls (stats g1) = cheapCalls (stats g) + (if ty = ''expensive'' then 0 else 1)
           \<and> expensiveCalls (stats g1) = expensiveCalls (stats g) + (if ty = ''expensive'' then 1 else 0)"
  using assms by (subst withBudget_def, subst canMakeCall_eq) (simp add: Let_def reset_frame)

lemma route_unfold:
  assumes "js_toString inp = Inr text"
  shows "route md5hex json cfg clk task inp options g w =
     (case cacheGet (t_get clk) (cacheKey md5hex json task inp options) g of
        (Some cached, g1) \<Rightarrow> (Inr cached, g1, w)
      | (None, g1) \<Rightarrow>
          (case route_try cfg clk task inp g1 w of
             (Inr result, g2, w2) \<Rightarrow>
               (Inr result,
                cacheSet (t_set clk) (cacheKey md5hex json task inp options) result
                  (Some (getTTL cfg task)) g2, w2)
           | (Inl err, g2, w2) \<Rightarrow> (Inr (getFallbackResponse task), g2, w2)))"
  unfolding route_def cacheKey_def Let_def assms sum.sel sum.case by (rule refl)

lemma route_rejects:
  assumes "js_toString inp = Inl err"
  shows "route md5hex json cfg clk task inp options g w = (Inl err, g, w)"
  using assms by (simp add: route_def)

lemma cacheGet_empty: "cache g = [] \<Longrightarrow> cacheGet now key g =
    (None, g\<lparr>stats := (stats g)\<lparr>cacheMisses := cacheMisses (stats g) + 1\<rparr>\<rparr>)"
  by (simp add: cacheGet_def)

lemma cacheGet_hit:
  assumes "map_of (cache g) key = Some e" and "now < expiry e"
  shows "cacheGet now key g =
           (Some (data e), g\<lparr>stats := (stats g)\<lparr>cacheHits := cacheHits (stats g) + 1\<rparr>\<rparr>)"
  using assms by (simp add: cacheGet_def)

lemma cacheGet_miss_state:
  assumes "fst (cacheGet now key g) = None"
  shows "gconfig (snd (cacheGet now key g)) = gconfig g"
    and "stats (snd (cacheGet now key g)) = (stats g)\<lparr>cacheMisses := cacheMisses (stats g) + 1\<rparr>"
    and "map_of (cache (snd (cacheGet now key g))) key = None"
    and "k \<noteq> key \<Longrightarrow> map_of (cache (snd (cacheGet now key g))) k = map_of (cache g) k"
  using assms
  by (auto simp add: cacheGet_def delete_conv' split: option.splits if_splits)

lemma route_hit:
  assumes "js_toString inp = Inr text"
    and "map_of (cache g) (cacheKey md5hex json task inp options) = Some e"
    and "t_get clk < expiry e"
  shows "route md5hex json cfg clk task inp options g w =
           (Inr (data e), g\<lparr>stats := (stats g)\<lparr>cacheHits := cacheHits (stats g) + 1\<rparr>\<rparr>, w)"
  by (simp add: route_unfold [OF assms(1)] cacheGet_hit [OF assms(2,3)])


lemma route_try_no_escalation:
  assumes "tryRulesFirst (t_rules clk) task inp = Inr r"
    and "\<not> (shouldEscalate r \<and> truthy (enabled cfg))"
  shows "route_try cfg clk task inp g w = (Inr r, g, w @ [Invoked Rules])"
  using assms by (auto simp add: route_try_def)

lemma route_try_rules_throw:
  assumes "tryRulesFirst (t_rules clk) task inp = Inl err"
  shows "route_try cfg clk task inp g w = (Inl err, g, w @ [Invoked Rules])"
  using assms by (simp add: route_try_def)

lemma cacheSet_frame:
  "stats (cacheSet now key d ttl g) = stats g"
  "gconfig (cacheSet now key d ttl g) = gconfig g"
  "map_of (cache (cacheSet now key d (Some (getTTL cfg task)) g)) key =
     Some \<lparr>data = d, expiry = now + getTTL cfg task * 1000\<rparr>"
  "k \<noteq> key \<Longrightarrow> map_of (cache (cacheSet now key d ttl g)) k = map_of (cache g) k"
  by (simp_all add: cacheSet_def Let_def update_conv' num_or_def getTTL_nonzero)

lemma urgent_housing_fields:
  "priority urgent_housing = Some (JStr ''urgent'')"
  "recommendations urgent_housing =
     Some [''Emergency shelter placement needed within 24 hours'',
           ''Rapid rehousing assessment required'',
           ''Connect with housing navigator immediately'']"
  "confidence urgent_housing = Some 0.95"
  "source urgent_housing = Some ''rules''"
  "uncertain urgent_housing = False"
  by (simp_all add: urgent_housing_def empty_result_def)

lemma navigator_uncertain_fields:
  "uncertain navigator_uncertain = True"
  "confidence navigator_uncertain = Some 0.4"
  "source navigator_uncertain = None"
  "response navigator_uncertain =
     Some ''I'd like to help you find the right resources. Could you tell me more specifically what kind of assistance you're looking for?''"
  by (simp_all add: navigator_uncertain_def empty_result_def)

lemma fallback_source: "source (getFallbackResponse task) = Some ''fallback''"
  by (simp add: getFallbackResponse_def empty_result_def)

lemma new_guard_cache: "cache (newCostGuard cfg today) = []"
  by (simp add: newCostGuard_def)

lemma wallet_query_unresolved:
  "navigatorRules (JStr ''I lost my wallet'') = Inr navigator_uncertain"
  by (simp add: toLowerCase_def lower_char_def faqRules_def)

lemma housing_query_resolved:
  "navigatorRules (JStr ''I need help with housing'') = Inr housing_answer"
  by (simp add: toLowerCase_def lower_char_def faqRules_def housing_answer_def)

lemma housing_answer_fields:
  "uncertain housing_answer = False"
  "confidence housing_answer = Some 0.9"
  "source housing_answer = Some ''rules''"
  "category housing_answer = Some ''housing''"
  by (simp_all add: housing_answer_def empty_result_def)

lemma housing_answer_no_escalation: "\<not> shouldEscalate housing_answer"
  by (simp add: shouldEscalate_def housing_answer_fields)

lemma triage_call_throws:
  "tryRulesFirst now ''triage'' inp = Inl (TypeError ''this.triageRules is not a function'')"
  by (simp add: tryRulesFirst_def)

lemma critical_housing_method:
  "triageRules critical_housing_client = Inr urgent_housing"
  by (simp add: triageRules_def critical_housing_client_def js_or_def)

lemma client_renders:
  "js_toString critical_housing_client = Inr ''[object Object]''"
  "js_toString employment_client = Inr ''[object Object]''"
  by (simp_all add: critical_housing_client_def employment_client_def)

lemma urgent_housing_no_escalation: "\<not> shouldEscalate urgent_housing"
  by (simp add: shouldEscalate_def urgent_housing_fields)

lemma cheap_response_no_escalation: "\<not> shouldEscalate (cheap_response cfg task)"
  by (simp add: shouldEscalate_def cheap_response_def empty_result_def)


lemma cacheGet_counters:
  "gconfig (snd (cacheGet now key g)) = gconfig g"
  "cheapCalls (stats (snd (cacheGet now key g))) = cheapCalls (stats g)"
  "expensiveCalls (stats (snd (cacheGet now key g))) = expensiveCalls (stats g)"
  "totalTokens (stats (snd (cacheGet now key g))) = totalTokens (stats g)"
  "dailyTokens (stats (snd (cacheGet now key g))) = dailyTokens (stats g)"
  "lastResetDate (stats (snd (cacheGet now key g))) = lastResetDate (stats g)"
  by (simp_all add: cacheGet_def split: option.splits)

section \<open>The triage scenario\<close>

lemma route_fell_back:
  assumes "js_toString inp = Inr text"
    and "cacheGet (t_get clk) (cacheKey md5hex json task inp options) g = (None, g1)"
    and "route_try cfg clk task inp g1 w = (Inl err, g2, w2)"
  shows "route md5hex json cfg clk task inp options g w = (Inr (getFallbackResponse task), g2, w2)"
  using assms(2,3) by (simp add: route_unfold [OF assms(1)])

lemma route_stored:
  assumes "js_toString inp = Inr text"
    and "cacheGet (t_get clk) (cacheKey md5hex json task inp options) g = (None, g1)"
    and "route_try cfg clk task inp g1 w = (Inr r, g2, w2)"
  shows "route md5hex json cfg clk task inp options g w
           = (Inr r, cacheSet (t_set clk) (cacheKey md5hex json task inp options) r
                       (Some (getTTL cfg task)) g2, w2)"
  using assms(2,3) by (simp add: route_unfold [OF assms(1)])

lemma route_failure_caught:
  assumes "js_toString inp = Inr text"
    and "cacheGet (t_get clk) (cacheKey md5hex json task inp options) g = (None, g1)"
    and "route_try cfg clk task inp g1 w = (Inl err, g2, w2)"
  shows "route_failure md5hex json cfg clk task inp options g w = Some err"
  using assms by (simp add: route_failure_def)

lemma route_failure_stored:
  assumes "js_toString inp = Inr text"
    and "cacheGet (t_get clk) (cacheKey md5hex json task inp options) g = (None, g1)"
    and "route_try cfg clk task inp g1 w = (Inr r, g2, w2)"
  shows "route_failure md5hex json cfg clk task inp options g w = None"
  using assms by (simp add: route_failure_def)

text \<open>Every triage call that misses the cache ends in the \<open>catch\<close> block and stores
  nothing.\<close>

lemma triage_falls_back:
  assumes rend: "js_toString inp = Inr text"
    and empty: "cache g = []"
  shows "route md5hex json cfg clk ''triage'' inp options g w
           = (Inr (getFallbackResponse ''triage''),
              g\<lparr>stats := (stats g)\<lparr>cacheMisses := cacheMisses (stats g) + 1\<rparr>\<rparr>,
              w @ [Invoked Rules])"
    and "route_failure md5hex json cfg clk ''triage'' inp options g w
           = Some (TypeError ''this.triageRules is not a function'')"
proof -
  let ?h = "g\<lparr>stats := (stats g)\<lparr>cacheMisses := cacheMisses (stats g) + 1\<rparr>\<rparr>"
  have cg: "cacheGet (t_get clk) (cacheKey md5hex json ''triage'' inp options) g = (None, ?h)"
    by (rule cacheGet_empty [OF empty])
  have tr: "route_try cfg clk ''triage'' inp ?h w
              = (Inl (TypeError ''this.triageRules is not a function''), ?h, w @ [Invoked Rules])"
    by (rule route_try_rules_throw [OF triage_call_throws])
  show "route md5hex json cfg clk ''triage'' inp options g w
           = (Inr (getFallbackResponse ''triage''), ?h, w @ [Invoked Rules])"
    by (rule route_fell_back [OF rend cg tr])
  show "route_failure md5hex json cfg clk ''triage'' inp options g w
           = Some (TypeError ''this.triageRules is not a function'')"
    by (rule route_failure_caught [OF rend cg tr])
qed

lemma triage_fallback_fields:
  "priority (getFallbackResponse ''triage'') = Some (JStr ''medium'')"
  "recommendations (getFallbackResponse ''triage'')
     = Some [''General assessment needed'', ''Schedule intake appointment'']"
  "confidence (getFallbackResponse ''triage'') = Some 0.5"
  "source (getFallbackResponse ''triage'') = Some ''fallback''"
  "getFallbackResponse ''triage'' \<noteq> urgent_housing"
  by (simp_all add: getFallbackResponse_def urgent_housing_def empty_result_def)

text \<open>
  Claim C1 does not hold of the code. The triage call for the client
  \<open>{needs: ["housing"], urgency: "critical"}\<close> on an empty cache does not get the rules
  result: the call \<open>this.triageRules(input, options)\<close> in \<open>tryRulesFirst\<close> throws a
  TypeError, since the constructor has stored the table of triage texts under that name,
  and \<open>route\<close> returns the triage fallback (priority \<open>medium\<close>, the two general
  recommendations, confidence 0.5, source \<open>fallback\<close>) and stores nothing. The method
  \<open>triageRules\<close> of the class, which is never reached, would return what the claim says:
  priority \<open>urgent\<close>, the three housing recommendations, confidence 0.95, source
  \<open>rules\<close>.
\<close>

theorem triage_call_falls_back:
  "tryRulesFirst (t_rules demo_clock) ''triage'' critical_housing_client
     = Inl (TypeError ''this.triageRules is not a function'')
   \<and> fst (route demo_md5 demo_json config_ai_on demo_clock ''triage'' critical_housing_client ()
            (newCostGuard config_ai_on demo_day) [])
       = Inr (getFallbackResponse ''triage'')
   \<and> cache (fst (snd (route demo_md5 demo_json config_ai_on demo_clock ''triage''
            critical_housing_client () (newCostGuard config_ai_on demo_day) []))) = []
   \<and> priority (getFallbackResponse ''triage'') = Some (JStr ''medium'')
   \<and> recommendations (getFallbackResponse ''triage'')
       = Some [''General assessment needed'', ''Schedule intake appointment'']
   \<and> confidence (getFallbackResponse ''triage'') = Some 0.5
   \<and> source (getFallbackResponse ''triage'') = Some ''fallback''
   \<and> getFallbackResponse ''triage'' \<noteq> urgent_housing
   \<and> triageRules critical_housing_client = Inr urgent_housing
   \<and> priority urgent_housing = Some (JStr ''urgent'')
   \<and> recommendations urgent_housing =
         Some [''Emergency shelter placement needed within 24 hours'',
               ''Rapid rehousing assessment required'',
               ''Connect with housing navigator immediately'']
   \<and> confidence urgent_housing = Some 0.95
   \<and> source urgent_housing = Some ''rules''"
proof -
  note r = triage_falls_back(1) [OF client_renders(1) new_guard_cache,
             of demo_md5 demo_json config_ai_on demo_clock "()" config_ai_on demo_day "[]"]
  have a: "fst (route demo_md5 demo_json config_ai_on demo_clock ''triage'' critical_housing_client ()
            (newCostGuard config_ai_on demo_day) [])
       = Inr (getFallbackResponse ''triage'')"
    unfolding r by simp
  have b: "cache (fst (snd (route demo_md5 demo_json config_ai_on demo_clock ''triage''
            critical_housing_client () (newCostGuard config_ai_on demo_day) []))) = []"
    unfolding r by (simp add: new_guard_cache)
  from a b triage_call_throws [of "t_rules demo_clock" critical_housing_client]
    triage_fallback_fields critical_housing_method urgent_housing_fields(1-4)
  show ?thesis
    by (intro conjI)
qed

section \<open>Unresolved navigator queries with AI disabled\<close>




section \<open>Charging the budget\<close>

text \<open>
  Claim C4, as stated, fails: a rejected call and a call whose operation throws both change
  the daily counter when the date string has advanced, because the budget check resets it
  first. On the guard \<open>stale_guard\<close> (9216 tokens used on the previous day) a cheap call
  estimated at 300 tokens is rejected, and a cheap call of 256 tokens whose operation
  throws propagates the error; after either, \<open>dailyTokens\<close> is 0 and no longer 9216.
\<close>

theorem withBudget_changes_daily_counter:
  "\<not> fst (canMakeCall demo_day 300 ''cheap'' stale_guard)
   \<and> dailyTokens (stats stale_guard) = 9216
   \<and> dailyTokens (stats (fst (snd (withBudget demo_day ''cheap-navigator''
         (cheap_operation config_ai_on ''navigator'') 300 ''cheap'' stale_guard [])))) = 0
   \<and> fst (canMakeCall demo_day 256 ''cheap'' stale_guard)
   \<and> fst (withBudget demo_day ''cheap-navigator'' failing_operation 256 ''cheap'' stale_guard [])
       = Inl (OperationFailed ''timeout'')
   \<and> dailyTokens (stats (fst (snd (withBudget demo_day ''cheap-navigator''
         failing_operation 256 ''cheap'' stale_guard [])))) = 0"
proof -
  have day: "lastResetDate (stats stale_guard) \<noteq> demo_day"
    by (simp add: stale_guard_def demo_day_def)
  have no: "\<not> fst (canMakeCall demo_day 300 ''cheap'' stale_guard)"
    by (simp add: canMakeCall_value stale_guard_def)
  have yes: "fst (canMakeCall demo_day 256 ''cheap'' stale_guard)"
    by (simp add: canMakeCall_value reset_new_day [OF day]) (simp add: stale_guard_def)
  have f: "failing_operation [] = (Inl (OperationFailed ''timeout''), [Generated Cheap])"
    by (simp add: failing_operation_def)
  have r: "withBudget demo_day ''cheap-navigator'' failing_operation 256 ''cheap'' stale_guard []
             = (Inl (OperationFailed ''timeout''), resetDailyCountersIfNeeded demo_day stale_guard,
                [Generated Cheap])"
    using yes f by (rule withBudget_failed [where fn = failing_operation and w = "[]"])
  show ?thesis
    by (simp add: no yes withBudget_rejected [OF no] r reset_new_day [OF day])
       (simp add: stale_guard_def)
qed

text \<open>
  Claim C4, amended. \<open>withBudget\<close> first applies the lazy daily reset. If the budget check
  fails it throws the budget-exceeded error without running the operation (the world
  outside the guard is untouched, whatever the operation is); if the operation throws, its
  error propagates. In both cases the guard is left in the state after the reset: no usage
  is credited, \<open>totalTokens\<close> and both call counters are as before the call, and
  \<open>dailyTokens\<close> is as before unless the reset set it to 0. Only on success are
  \<open>totalTokens\<close> and \<open>dailyTokens\<close> increased by the estimate and the tier's call
  counter by one.
\<close>

theorem withBudget_charges_only_success:
  "(\<not> fst (canMakeCall today est ty g) \<longrightarrow>
      withBudget today label fn est ty g w =
        (Inl (BudgetExceeded label (maxDailyTokens (gconfig g))
                (dailyTokens (stats (resetDailyCountersIfNeeded today g)))),
         resetDailyCountersIfNeeded today g, w))
   \<and> (\<forall>err w1. fst (canMakeCall today est ty g) \<and> fn w = (Inl err, w1) \<longrightarrow>
        withBudget today label fn est ty g w = (Inl err, resetDailyCountersIfNeeded today g, w1))
   \<and> (\<forall>res w1. fst (canMakeCall today est ty g) \<and> fn w = (Inr res, w1) \<longrightarrow>
        fst (withBudget today label fn est ty g w) = Inr res
        \<and> snd (snd (withBudget today label fn est ty g w)) = w1
        \<and> dailyTokens (stats (fst (snd (withBudget today label fn est ty g w))))
            = dailyTokens (stats (resetDailyCountersIfNeeded today g)) + est
        \<and> totalTokens (stats (fst (snd (withBudget today label fn est ty g w))))
            = totalTokens (stats g) + est
        \<and> cheapCalls (stats (fst (snd (withBudget today label fn est ty g w))))
            = cheapCalls (stats g) + (if ty = ''expensive'' then 0 else 1)
        \<and> expensiveCalls (stats (fst (snd (withBudget today label fn est ty g w))))
            = expensiveCalls (stats g) + (if ty = ''expensive'' then 1 else 0))
   \<and> totalTokens (stats (resetDailyCountersIfNeeded today g)) = totalTokens (stats g)
   \<and> cheapCalls (stats (resetDailyCountersIfNeeded today g)) = cheapCalls (stats g)
   \<and> expensiveCalls (stats (resetDailyCountersIfNeeded today g)) = expensiveCalls (stats g)
   \<and> dailyTokens (stats (resetDailyCountersIfNeeded today g))
       = (if lastResetDate (stats g) = today then dailyTokens (stats g) else 0)"
proof -
  have a: "\<not> fst (canMakeCall today est ty g) \<longrightarrow>
      withBudget today label fn est ty g w =
        (Inl (BudgetExceeded label (maxDailyTokens (gconfig g))
                (dailyTokens (stats (resetDailyCountersIfNeeded today g)))),
         resetDailyCountersIfNeeded today g, w)"
    by (simp add: withBudget_rejected)
  have b: "\<forall>err w1. fst (canMakeCall today est ty g) \<and> fn w = (Inl err, w1) \<longrightarrow>
        withBudget today label fn est ty g w = (Inl err, resetDailyCountersIfNeeded today g, w1)"
    by (simp add: withBudget_failed)
  have c: "\<forall>res w1. fst (canMakeCall today est ty g) \<and> fn w = (Inr res, w1) \<longrightarrow>
        fst (withBudget today label fn est ty g w) = Inr res
        \<and> snd (snd (withBudget today label fn est ty g w)) = w1
        \<and> dailyTokens (stats (fst (snd (withBudget today label fn est ty g w))))
            = dailyTokens (stats (resetDailyCountersIfNeeded today g)) + est
        \<and> totalTokens (stats (fst (snd (withBudget today label fn est ty g w))))
            = totalTokens (stats g) + est
        \<and> cheapCalls (stats (fst (snd (withBudget today label fn est ty g w))))
            = cheapCalls (stats g) + (if ty = ''expensive'' then 0 else 1)
        \<and> expensiveCalls (stats (fst (snd (withBudget today label fn est ty g w))))
            = expensiveCalls (stats g) + (if ty = ''expensive'' then 1 else 0)"
  proof (intro allI impI)
    fix res w1
    assume h: "fst (canMakeCall today est ty g) \<and> fn w = (Inr res, w1)"
    from withBudget_charged [of today est ty g fn w res w1 label] h
    obtain g1 where "withBudget today label fn est ty g w = (Inr res, g1, w1)"
      and "dailyTokens (stats g1) = dailyTokens (stats (resetDailyCountersIfNeeded today g)) + est"
      and "totalTokens (stats g1) = totalTokens (stats g) + est"
      and "cheapCalls (stats g1) = cheapCalls (stats g) + (if ty = ''expensive'' then 0 else 1)"
      and "expensiveCalls (stats g1) = expensiveCalls (stats g) + (if ty = ''expensive'' then 1 else 0)"
      by blast
    then show "fst (withBudget today label fn est ty g w) = Inr res
        \<and> snd (snd (withBudget today label fn est ty g w)) = w1
        \<and> dailyTokens (stats (fst (snd (withBudget today label fn est ty g w))))
            = dailyTokens (stats (resetDailyCountersIfNeeded today g)) + est
        \<and> totalTokens (stats (fst (snd (withBudget today label fn est ty g w))))
            = totalTokens (stats g) + est
        \<and> cheapCalls (stats (fst (snd (withBudget today label fn est ty g w))))
            = cheapCalls (stats g) + (if ty = ''expensive'' then 0 else 1)
        \<and> expensiveCalls (stats (fst (snd (withBudget today label fn est ty g w))))
            = expensiveCalls (stats g) + (if ty = ''expensive'' then 1 else 0)"
      by simp
  qed
  have d: "dailyTokens (stats (resetDailyCountersIfNeeded today g))
       = (if lastResetDate (stats g) = today then dailyTokens (stats g) else 0)"
    by (simp add: resetDailyCountersIfNeeded_def)
  from a b c d show ?thesis
    by (simp only: reset_frame simp_thms)
qed

text \<open>
  The three cases on concrete calls: a rejected call (300 tokens against the cheap ceiling
  of 256), a call whose operation throws, and a successful call, all on a fresh guard on
  the same day.
\<close>

theorem withBudget_charges_only_success_witness:
  "\<not> fst (canMakeCall demo_day 300 ''cheap'' (newCostGuard config_ai_on demo_day))
   \<and> withBudget demo_day ''cheap-navigator'' (cheap_operation config_ai_on ''navigator'') 300 ''cheap''
        (newCostGuard config_ai_on demo_day) []
       = (Inl (BudgetExceeded ''cheap-navigator'' 10000 0), newCostGuard config_ai_on demo_day, [])
   \<and> fst (canMakeCall demo_day 256 ''cheap'' (newCostGuard config_ai_on demo_day))
   \<and> failing_operation [] = (Inl (OperationFailed ''timeout''), [Generated Cheap])
   \<and> withBudget demo_day ''cheap-navigator'' failing_operation 256 ''cheap''
        (newCostGuard config_ai_on demo_day) []
       = (Inl (OperationFailed ''timeout''), newCostGuard config_ai_on demo_day, [Generated Cheap])
   \<and> cheap_operation config_ai_on ''navigator'' []
       = (Inr (cheap_response config_ai_on ''navigator''), [Generated Cheap])
   \<and> dailyTokens (stats (fst (snd (withBudget demo_day ''cheap-navigator''
        (cheap_operation config_ai_on ''navigator'') 256 ''cheap''
        (newCostGuard config_ai_on demo_day) [])))) = 256
   \<and> cheapCalls (stats (fst (snd (withBudget demo_day ''cheap-navigator''
        (cheap_operation config_ai_on ''navigator'') 256 ''cheap''
        (newCostGuard config_ai_on demo_day) [])))) = 1"
proof -
  let ?g = "newCostGuard config_ai_on demo_day"
  have same: "resetDailyCountersIfNeeded demo_day ?g = ?g"
    by (rule reset_same_day) (simp add: newCostGuard_def)
  have no: "\<not> fst (canMakeCall demo_day 300 ''cheap'' ?g)"
    by (simp add: canMakeCall_value) (simp add: newCostGuard_def config_ai_on_def num_or_def)
  have yes: "fst (canMakeCall demo_day 256 ''cheap'' ?g)"
    by (simp add: canMakeCall_value same) (simp add: newCostGuard_def config_ai_on_def num_or_def)
  have f: "failing_operation [] = (Inl (OperationFailed ''timeout''), [Generated Cheap])"
    by (simp add: failing_operation_def)
  have c: "cheap_operation config_ai_on ''navigator'' []
       = (Inr (cheap_response config_ai_on ''navigator''), [Generated Cheap])"
    by (simp add: cheap_operation_def)
  have v: "maxDailyTokens (gconfig ?g) = 10000" "dailyTokens (stats ?g) = 0" "cheapCalls (stats ?g) = 0"
    by (simp_all add: newCostGuard_def)
  note t1 = withBudget_charges_only_success [of demo_day 300 "''cheap''" ?g
              "''cheap-navigator''" "cheap_operation config_ai_on ''navigator''" "[]"]
  note t2 = withBudget_charges_only_success [of demo_day 256 "''cheap''" ?g
              "''cheap-navigator''" failing_operation "[]"]
  note t3 = withBudget_charges_only_success [of demo_day 256 "''cheap''" ?g
              "''cheap-navigator''" "cheap_operation config_ai_on ''navigator''" "[]"]
  have r1: "withBudget demo_day ''cheap-navigator'' (cheap_operation config_ai_on ''navigator'') 300 ''cheap'' ?g []
       = (Inl (BudgetExceeded ''cheap-navigator'' 10000 0), ?g, [])"
    using t1 no by (simp add: same v)
  have r2: "withBudget demo_day ''cheap-navigator'' failing_operation 256 ''cheap'' ?g []
       = (Inl (OperationFailed ''timeout''), ?g, [Generated Cheap])"
    using t2 yes f by (simp add: same)
  have r3: "dailyTokens (stats (fst (snd (withBudget demo_day ''cheap-navigator''
        (cheap_operation config_ai_on ''navigator'') 256 ''cheap'' ?g [])))) = 256
     \<and> cheapCalls (stats (fst (snd (withBudget demo_day ''cheap-navigator''
        (cheap_operation config_ai_on ''navigator'') 256 ''cheap'' ?g [])))) = 1"
    using t3 yes c by (simp add: same v)
  from no yes f c r1 r2 r3 show ?thesis
    by (simp only: simp_thms)
qed

section \<open>Escalation\<close>

lemma route_no_escalation:
  assumes rules: "tryRulesFirst (t_rules clk) task inp = Inr r"
    and keep: "\<not> (shouldEscalate r \<and> truthy (enabled cfg))"
  shows "(snd (snd (route md5hex json cfg clk task inp options g w)) = w
           \<or> snd (snd (route md5hex json cfg clk task inp options g w)) = w @ [Invoked Rules])
       \<and> cheapCalls (stats (fst (snd (route md5hex json cfg clk task inp options g w))))
           = cheapCalls (stats g)
       \<and> expensiveCalls (stats (fst (snd (route md5hex json cfg clk task inp options g w))))
           = expensiveCalls (stats g)
       \<and> dailyTokens (stats (fst (snd (route md5hex json cfg clk task inp options g w))))
           = dailyTokens (stats g)
       \<and> totalTokens (stats (fst (snd (route md5hex json cfg clk task inp options g w))))
           = totalTokens (stats g)"
proof (cases "js_toString inp")
  case (Inl err)
  then show ?thesis
    by (simp add: route_rejects)
next
  case (Inr str)
  obtain c g1 where cg: "cacheGet (t_get clk) (cacheKey md5hex json task inp options) g = (c, g1)"
    by (cases "cacheGet (t_get clk) (cacheKey md5hex json task inp options) g")
  have g1: "g1 = snd (cacheGet (t_get clk) (cacheKey md5hex json task inp options) g)"
    by (simp add: cg)
  show ?thesis
  proof (cases c)
    case None
    then show ?thesis
      by (simp add: route_unfold [OF Inr] cg route_try_no_escalation [OF rules keep] cacheSet_frame)
         (simp add: g1 cacheGet_counters)
  next
    case (Some cached)
    then show ?thesis
      by (simp add: route_unfold [OF Inr] cg) (simp add: g1 cacheGet_counters)
  qed
qed

text \<open>
  Claim C8. The escalation predicate holds exactly when the result is marked uncertain or
  its confidence is below 0.7. When the rules tier returns a result that is not marked
  uncertain and whose confidence is at least 0.7, the body of \<open>route\<close> stops after the
  rules tier: the only resolver invoked is the rules one (or none, on a cache hit), no
  model operation runs, and the call counters and token counters are unchanged.
\<close>

theorem escalation_monotonicity:
  "(shouldEscalate r \<longleftrightarrow> uncertain r \<or> (\<exists>c. confidence r = Some c \<and> c < 0.7))
   \<and> (tryRulesFirst (t_rules clk) task inp = Inr r \<and> \<not> uncertain r
        \<and> confidence r = Some conf \<and> 0.7 \<le> conf \<longrightarrow>
       route_try cfg clk task inp g w = (Inr r, g, w @ [Invoked Rules])
       \<and> (snd (snd (route md5hex json cfg clk task inp options g w)) = w
            \<or> snd (snd (route md5hex json cfg clk task inp options g w)) = w @ [Invoked Rules])
       \<and> cheapCalls (stats (fst (snd (route md5hex json cfg clk task inp options g w))))
           = cheapCalls (stats g)
       \<and> expensiveCalls (stats (fst (snd (route md5hex json cfg clk task inp options g w))))
           = expensiveCalls (stats g)
       \<and> dailyTokens (stats (fst (snd (route md5hex json cfg clk task inp options g w))))
           = dailyTokens (stats g)
       \<and> totalTokens (stats (fst (snd (route md5hex json cfg clk task inp options g w))))
           = totalTokens (stats g))"
proof (intro conjI impI)
  show "shouldEscalate r \<longleftrightarrow> uncertain r \<or> (\<exists>c. confidence r = Some c \<and> c < 0.7)"
    by (cases "confidence r") (simp_all add: shouldEscalate_def)
next
  assume h: "tryRulesFirst (t_rules clk) task inp = Inr r \<and> \<not> uncertain r
        \<and> confidence r = Some conf \<and> 0.7 \<le> conf"
  then have rules: "tryRulesFirst (t_rules clk) task inp = Inr r"
    by simp
  from h have keep: "\<not> (shouldEscalate r \<and> truthy (enabled cfg))"
    by (simp add: shouldEscalate_def)
  note route_no_escalation [OF rules keep, of md5hex json options g w]
  then show "snd (snd (route md5hex json cfg clk task inp options g w)) = w
            \<or> snd (snd (route md5hex json cfg clk task inp options g w)) = w @ [Invoked Rules]"
    and "cheapCalls (stats (fst (snd (route md5hex json cfg clk task inp options g w))))
           = cheapCalls (stats g)"
    and "expensiveCalls (stats (fst (snd (route md5hex json cfg clk task inp options g w))))
           = expensiveCalls (stats g)"
    and "dailyTokens (stats (fst (snd (route md5hex json cfg clk task inp options g w))))
           = dailyTokens (stats g)"
    and "totalTokens (stats (fst (snd (route md5hex json cfg clk task inp options g w))))
           = totalTokens (stats g)"
    by blast+
  show "route_try cfg clk task inp g w = (Inr r, g, w @ [Invoked Rules])"
    by (rule route_try_no_escalation [OF rules keep])
qed

theorem escalation_monotonicity_witness:
  "tryRulesFirst (t_rules demo_clock) ''navigator'' (JStr ''I need help with housing'')
     = Inr housing_answer
   \<and> \<not> uncertain housing_answer
   \<and> confidence housing_answer = Some 0.9
   \<and> (0.7 :: real) \<le> 0.9
   \<and> truthy (enabled config_ai_on)
   \<and> route_try config_ai_on demo_clock ''navigator'' (JStr ''I need help with housing'')
        (newCostGuard config_ai_on demo_day) []
       = (Inr housing_answer, newCostGuard config_ai_on demo_day, [Invoked Rules])
   \<and> cheapCalls (stats (fst (snd (route demo_md5 demo_json config_ai_on demo_clock ''navigator''
        (JStr ''I need help with housing'') () (newCostGuard config_ai_on demo_day) [])))) = 0"
proof -
  have e: "truthy (enabled config_ai_on)"
    by (simp add: enabled_def config_ai_on_def)
  have z: "cheapCalls (stats (newCostGuard config_ai_on demo_day)) = 0"
    by (simp add: newCostGuard_def)
  have rules: "tryRulesFirst (t_rules demo_clock) ''navigator'' (JStr ''I need help with housing'')
                 = Inr housing_answer"
    by (simp add: tryRulesFirst_def housing_query_resolved del: navigatorRules.simps)
  show ?thesis
    using escalation_monotonicity [of housing_answer demo_clock "''navigator''"
            "JStr ''I need help with housing''" "0.9" config_ai_on
            "newCostGuard config_ai_on demo_day" "[]" demo_md5 demo_json "()"]
    by (simp add: rules housing_answer_fields e z)
qed

section \<open>The enabled flag of the statistics\<close>

text \<open>
  Claim C9 does not hold of the code. With AI switched on and the credential
  \<open>sk-test-123\<close> configured, the \<open>enabled\<close> field of \<open>getStats\<close> is that credential
  string, not the boolean \<open>true\<close>: the constructor stores
  \<open>config.AI_ENABLE && config.OPENAI_API_KEY\<close>. With AI switched on and an empty
  credential the field is the empty string, not the boolean \<open>false\<close>.
\<close>

theorem getStats_enabled_is_credential:
  "AI_ENABLE config_ai_on
   \<and> OPENAI_API_KEY config_ai_on = ''sk-test-123''
   \<and> rs_enabled (fst (getStats config_ai_on demo_day (newCostGuard config_ai_on demo_day)))
       = JString ''sk-test-123''
   \<and> rs_enabled (fst (getStats config_ai_on demo_day (newCostGuard config_ai_on demo_day)))
       \<noteq> JBoolean True
   \<and> rs_enabled (fst (getStats (config_ai_on\<lparr>OPENAI_API_KEY := []\<rparr>) demo_day
        (newCostGuard config_ai_on demo_day))) = JString []"
  by (simp add: getStats_def guard_getStats_def enabled_def config_ai_on_def split: prod.splits)

section \<open>The daily reset\<close>

lemma withBudget_after_reset:
  "withBudget today label fn n ty g w
     = withBudget today label fn n ty (resetDailyCountersIfNeeded today g) w"
  by (simp add: withBudget_def canMakeCall_def Let_def reset_idem)

text \<open>
  Claim C10. When the date string differs from \<open>lastResetDate\<close>, the reset sets
  \<open>dailyTokens\<close> to 0 and \<open>lastResetDate\<close> to the new date and leaves \<open>cheapCalls\<close>,
  \<open>expensiveCalls\<close> and \<open>totalTokens\<close> as they were. \<open>canMakeCall\<close> and both
  \<open>getStats\<close> leave the guard in exactly that state; \<open>withBudget\<close> behaves as if started
  from it, so a call that throws leaves the guard in it, and a call that succeeds has
  \<open>dailyTokens\<close> equal to its own estimate afterwards. A second reset on the same date
  changes nothing.
\<close>

theorem daily_reset_frame:
  assumes "lastResetDate (stats g) \<noteq> today"
  shows "resetDailyCountersIfNeeded today g
           = g\<lparr>stats := (stats g)\<lparr>dailyTokens := 0, lastResetDate := today\<rparr>\<rparr>
       \<and> dailyTokens (stats (resetDailyCountersIfNeeded today g)) = 0
       \<and> lastResetDate (stats (resetDailyCountersIfNeeded today g)) = today
       \<and> cheapCalls (stats (resetDailyCountersIfNeeded today g)) = cheapCalls (stats g)
       \<and> expensiveCalls (stats (resetDailyCountersIfNeeded today g)) = expensiveCalls (stats g)
       \<and> totalTokens (stats (resetDailyCountersIfNeeded today g)) = totalTokens (stats g)
       \<and> snd (canMakeCall today n ty g) = resetDailyCountersIfNeeded today g
       \<and> snd (guard_getStats today g) = resetDailyCountersIfNeeded today g
       \<and> gs_stats (fst (guard_getStats today g)) = stats (resetDailyCountersIfNeeded today g)
       \<and> snd (getStats cfg today g) = resetDailyCountersIfNeeded today g
       \<and> withBudget today label fn n ty g w
           = withBudget today label fn n ty (resetDailyCountersIfNeeded today g) w
       \<and> (\<forall>err. fst (withBudget today label fn n ty g w) = Inl err \<longrightarrow>
             fst (snd (withBudget today label fn n ty g w)) = resetDailyCountersIfNeeded today g)
       \<and> (\<forall>res. fst (withBudget today label fn n ty g w) = Inr res \<longrightarrow>
             dailyTokens (stats (fst (snd (withBudget today label fn n ty g w)))) = n
             \<and> lastResetDate (stats (fst (snd (withBudget today label fn n ty g w)))) = today
             \<and> totalTokens (stats (fst (snd (withBudget today label fn n ty g w))))
                 = totalTokens (stats g) + n)
       \<and> resetDailyCountersIfNeeded today (resetDailyCountersIfNeeded today g)
           = resetDailyCountersIfNeeded today g"
proof -
  let ?r = "resetDailyCountersIfNeeded today g"
  have r: "?r = g\<lparr>stats := (stats g)\<lparr>dailyTokens := 0, lastResetDate := today\<rparr>\<rparr>"
    by (rule reset_new_day [OF assms])
  have z: "dailyTokens (stats ?r) = 0"
    by (simp add: r)
  have gs: "snd (guard_getStats today g) = ?r" "gs_stats (fst (guard_getStats today g)) = stats ?r"
    "snd (getStats cfg today g) = ?r"
    by (simp_all add: guard_getStats_def getStats_def Let_def)
  have thrown: "\<forall>err. fst (withBudget today label fn n ty g w) = Inl err \<longrightarrow>
             fst (snd (withBudget today label fn n ty g w)) = ?r"
  proof (intro allI impI)
    fix err
    assume e: "fst (withBudget today label fn n ty g w) = Inl err"
    show "fst (snd (withBudget today label fn n ty g w)) = ?r"
    proof (cases "fst (canMakeCall today n ty g)")
      case False
      then show ?thesis by (simp add: withBudget_rejected)
    next
      case True
      obtain out w1 where f: "fn w = (out, w1)" by (cases "fn w")
      show ?thesis
      proof (cases out)
        case (Inl x)
        with True f show ?thesis by (simp add: withBudget_failed)
      next
        case (Inr res)
        with True f withBudget_charged [of today n ty g fn w res w1 label] e
        show ?thesis by auto
      qed
    qed
  qed
  have returned: "\<forall>res. fst (withBudget today label fn n ty g w) = Inr res \<longrightarrow>
             dailyTokens (stats (fst (snd (withBudget today label fn n ty g w)))) = n
             \<and> lastResetDate (stats (fst (snd (withBudget today label fn n ty g w)))) = today
             \<and> totalTokens (stats (fst (snd (withBudget today label fn n ty g w))))
                 = totalTokens (stats g) + n"
  proof (intro allI impI)
    fix res
    assume e: "fst (withBudget today label fn n ty g w) = Inr res"
    have can: "fst (canMakeCall today n ty g)"
      using e by (cases "fst (canMakeCall today n ty g)") (simp_all add: withBudget_rejected)
    obtain out w1 where f: "fn w = (out, w1)" by (cases "fn w")
    show "dailyTokens (stats (fst (snd (withBudget today label fn n ty g w)))) = n
             \<and> lastResetDate (stats (fst (snd (withBudget today label fn n ty g w)))) = today
             \<and> totalTokens (stats (fst (snd (withBudget today label fn n ty g w))))
                 = totalTokens (stats g) + n"
    proof (cases out)
      case (Inl x)
      with can f e show ?thesis by (simp add: withBudget_failed)
    next
      case (Inr r')
      with can f have "fst (canMakeCall today n ty g)" and "fn w = (Inr r', w1)"
        by simp_all
      from withBudget_charged [where fn = fn and w = w and label = label, OF this]
      obtain g1 where "withBudget today label fn n ty g w = (Inr r', g1, w1)"
        and "lastResetDate (stats g1) = today"
        and "dailyTokens (stats g1) = dailyTokens (stats (resetDailyCountersIfNeeded today g)) + n"
        and "totalTokens (stats g1) = totalTokens (stats g) + n"
        by blast
      then show ?thesis by (simp add: z)
    qed
  qed
  have frame: "lastResetDate (stats ?r) = today" "cheapCalls (stats ?r) = cheapCalls (stats g)"
    "expensiveCalls (stats ?r) = expensiveCalls (stats g)"
    "totalTokens (stats ?r) = totalTokens (stats g)"
    by (simp_all add: reset_frame)
  show ?thesis
    by (intro conjI)
       (rule r z frame gs thrown returned canMakeCall_state reset_idem withBudget_after_reset)+
qed

theorem daily_reset_frame_witness:
  "lastResetDate (stats stale_guard) \<noteq> demo_day
   \<and> dailyTokens (stats stale_guard) = 9216
   \<and> dailyTokens (stats (snd (canMakeCall demo_day 256 ''cheap'' stale_guard))) = 0
   \<and> lastResetDate (stats (snd (canMakeCall demo_day 256 ''cheap'' stale_guard))) = demo_day
   \<and> cheapCalls (stats (snd (canMakeCall demo_day 256 ''cheap'' stale_guard))) = 36
   \<and> totalTokens (stats (snd (canMakeCall demo_day 256 ''cheap'' stale_guard))) = 9216
   \<and> dailyTokens (gs_stats (fst (guard_getStats demo_day stale_guard))) = 0"
proof -
  have day: "lastResetDate (stats stale_guard) \<noteq> demo_day"
    by (simp add: stale_guard_def demo_day_def)
  have v: "dailyTokens (stats stale_guard) = 9216" "cheapCalls (stats stale_guard) = 36"
    "totalTokens (stats stale_guard) = 9216"
    by (simp_all add: stale_guard_def)
  show ?thesis
    using daily_reset_frame [OF day, where n = 256 and ty = "''cheap''" and cfg = config_ai_on
            and label = "''cheap-navigator''" and fn = failing_operation and w = "[]"] day
    by (simp add: v)
qed

section \<open>Failures inside the router\<close>

lemma withBudget_frame:
  "cache (fst (snd (withBudget today label fn est ty g w))) = cache g"
  "gconfig (fst (snd (withBudget today label fn est ty g w))) = gconfig g"
proof -
  obtain out w1 where f: "fn w = (out, w1)" by (cases "fn w")
  have "cache (fst (snd (withBudget today label fn est ty g w))) = cache g
      \<and> gconfig (fst (snd (withBudget today label fn est ty g w))) = gconfig g"
  proof (cases "fst (canMakeCall today est ty g)")
    case False
    then show ?thesis by (simp add: withBudget_rejected reset_frame)
  next
    case True
    show ?thesis
    proof (cases out)
      case (Inl err)
      with True f show ?thesis by (simp add: withBudget_failed reset_frame)
    next
      case (Inr res)
      with True f have "fst (canMakeCall today est ty g)" and "fn w = (Inr res, w1)"
        by simp_all
      from withBudget_charged [where fn = fn and w = w and label = label, OF this]
      show ?thesis by auto
    qed
  qed
  then show "cache (fst (snd (withBudget today label fn est ty g w))) = cache g"
    and "gconfig (fst (snd (withBudget today label fn est ty g w))) = gconfig g"
    by simp_all
qed

lemma tryCheapModel_frame:
  "cache (fst (snd (tryCheapModel cfg today task g w))) = cache g"
  "gconfig (fst (snd (tryCheapModel cfg today task g w))) = gconfig g"
  by (simp_all add: tryCheapModel_def withBudget_frame)

lemma tryExpensiveModel_frame:
  "cache (fst (snd (tryExpensiveModel cfg today task g w))) = cache g"
  "gconfig (fst (snd (tryExpensiveModel cfg today task g w))) = gconfig g"
  by (simp_all add: tryExpensiveModel_def withBudget_frame)

lemma route_try_frame:
  "cache (fst (snd (route_try cfg clk task inp g w))) = cache g"
  "gconfig (fst (snd (route_try cfg clk task inp g w))) = gconfig g"
proof -
  have "cache (fst (snd (route_try cfg clk task inp g w))) = cache g
      \<and> gconfig (fst (snd (route_try cfg clk task inp g w))) = gconfig g"
  proof (cases "tryRulesFirst (t_rules clk) task inp")
    case (Inl err)
    then show ?thesis by (simp add: route_try_def)
  next
    case (Inr r)
    show ?thesis
    proof (cases "shouldEscalate r \<and> truthy (enabled cfg)")
      case False
      with Inr show ?thesis by (auto simp add: route_try_def)
    next
      case True
      obtain out g2 w2 where c: "tryCheapModel cfg (d_cheap clk) task g (w @ [Invoked Rules, Invoked Cheap])
          = (out, g2, w2)"
        by (cases "tryCheapModel cfg (d_cheap clk) task g (w @ [Invoked Rules, Invoked Cheap])") auto
      from tryCheapModel_frame [of cfg "d_cheap clk" task g "w @ [Invoked Rules, Invoked Cheap]"] c
      have g2: "cache g2 = cache g" "gconfig g2 = gconfig g"
        by simp_all
      show ?thesis
        using Inr True c g2
        by (cases out) (simp_all add: route_try_def tryExpensiveModel_frame)
    qed
  qed
  then show "cache (fst (snd (route_try cfg clk task inp g w))) = cache g"
    and "gconfig (fst (snd (route_try cfg clk task inp g w))) = gconfig g"
    by simp_all
qed

lemma route_try_cheap:
  assumes en: "truthy (enabled cfg)"
    and rules: "tryRulesFirst (t_rules clk) task inp = Inr r"
    and esc: "shouldEscalate r"
    and cost: "(case AI_MAX_TOKENS_CHEAP cfg of None \<Rightarrow> 100 | Some n \<Rightarrow> n) = c"
  shows "fst (canMakeCall (d_cheap clk) c ''cheap'' g) \<Longrightarrow>
           \<exists>g1. route_try cfg clk task inp g w
                  = (Inr (cheap_response cfg task), g1, w @ [Invoked Rules, Invoked Cheap, Generated Cheap])
             \<and> cache g1 = cache g \<and> gconfig g1 = gconfig g
             \<and> lastResetDate (stats g1) = d_cheap clk
             \<and> cacheHits (stats g1) = cacheHits (stats g)
             \<and> cacheMisses (stats g1) = cacheMisses (stats g)
             \<and> dailyTokens (stats g1)
                 = dailyTokens (stats (resetDailyCountersIfNeeded (d_cheap clk) g)) + c
             \<and> totalTokens (stats g1) = totalTokens (stats g) + c
             \<and> cheapCalls (stats g1) = cheapCalls (stats g) + 1
             \<and> expensiveCalls (stats g1) = expensiveCalls (stats g)"
    and "\<not> fst (canMakeCall (d_cheap clk) c ''cheap'' g) \<Longrightarrow>
           route_try cfg clk task inp g w
             = (Inl (BudgetExceeded (''cheap-'' @ task) (maxDailyTokens (gconfig g))
                       (dailyTokens (stats (resetDailyCountersIfNeeded (d_cheap clk) g)))),
                resetDailyCountersIfNeeded (d_cheap clk) g, w @ [Invoked Rules, Invoked Cheap])"
proof -
  let ?w = "w @ [Invoked Rules, Invoked Cheap]"
  have t: "tryCheapModel cfg (d_cheap clk) task g ?w
             = withBudget (d_cheap clk) (''cheap-'' @ task) (cheap_operation cfg task) c ''cheap'' g ?w"
    using en cost by (simp add: tryCheapModel_def)
  {
    assume can: "fst (canMakeCall (d_cheap clk) c ''cheap'' g)"
    have op: "cheap_operation cfg task ?w = (Inr (cheap_response cfg task), ?w @ [Generated Cheap])"
      by (simp add: cheap_operation_def)
    from withBudget_charged [where fn = "cheap_operation cfg task" and w = ?w
           and label = "''cheap-'' @ task", OF can op]
    obtain g1 where wb: "withBudget (d_cheap clk) (''cheap-'' @ task) (cheap_operation cfg task) c ''cheap'' g ?w
                      = (Inr (cheap_response cfg task), g1, ?w @ [Generated Cheap])"
      and fr: "cache g1 = cache g" "gconfig g1 = gconfig g" "lastResetDate (stats g1) = d_cheap clk"
        "cacheHits (stats g1) = cacheHits (stats g)" "cacheMisses (stats g1) = cacheMisses (stats g)"
        "dailyTokens (stats g1) = dailyTokens (stats (resetDailyCountersIfNeeded (d_cheap clk) g)) + c"
        "totalTokens (stats g1) = totalTokens (stats g) + c"
        "cheapCalls (stats g1) = cheapCalls (stats g) + 1"
        "expensiveCalls (stats g1) = expensiveCalls (stats g)"
      by auto
    have "route_try cfg clk task inp g w
            = (Inr (cheap_response cfg task), g1, w @ [Invoked Rules, Invoked Cheap, Generated Cheap])"
      using rules esc en t wb by (simp add: route_try_def cheap_response_no_escalation)
    with fr show "\<exists>g1. route_try cfg clk task inp g w
                  = (Inr (cheap_response cfg task), g1, w @ [Invoked Rules, Invoked Cheap, Generated Cheap])
             \<and> cache g1 = cache g \<and> gconfig g1 = gconfig g
             \<and> lastResetDate (stats g1) = d_cheap clk
             \<and> cacheHits (stats g1) = cacheHits (stats g)
             \<and> cacheMisses (stats g1) = cacheMisses (stats g)
             \<and> dailyTokens (stats g1)
                 = dailyTokens (stats (resetDailyCountersIfNeeded (d_cheap clk) g)) + c
             \<and> totalTokens (stats g1) = totalTokens (stats g) + c
             \<and> cheapCalls (stats g1) = cheapCalls (stats g) + 1
             \<and> expensiveCalls (stats g1) = expensiveCalls (stats g)"
      by blast
  next
    assume no: "\<not> fst (canMakeCall (d_cheap clk) c ''cheap'' g)"
    show "route_try cfg clk task inp g w
             = (Inl (BudgetExceeded (''cheap-'' @ task) (maxDailyTokens (gconfig g))
                       (dailyTokens (stats (resetDailyCountersIfNeeded (d_cheap clk) g)))),
                resetDailyCountersIfNeeded (d_cheap clk) g, w @ [Invoked Rules, Invoked Cheap])"
      using rules esc en t withBudget_rejected [OF no, of "''cheap-'' @ task" "cheap_operation cfg task" ?w]
      by (simp add: route_try_def)
  }
qed

lemma client_navigator_throws:
  "route_try cfg clk ''navigator'' critical_housing_client g w
     = (Inl (TypeError ''input.toLowerCase is not a function''), g, w @ [Invoked Rules])"
  by (rule route_try_rules_throw) (simp add: tryRulesFirst_def critical_housing_client_def)

text \<open>
  Claim C6 does not hold of the code. \<open>route\<close> computes the cache key before it enters
  its \<open>try\<close> block, so an error thrown by the template literal \<open>`${task}:${input}`\<close> is
  not absorbed. For the navigator query \<open>{"toString": "x"}\<close>, an object that JSON can
  carry and that has no string conversion, \<open>route\<close> rejects with the TypeError and
  returns no fallback. An error thrown inside the \<open>try\<close> block is absorbed as the claim
  says: the navigator call for a client object, whose rules tier throws, returns the
  navigator fallback with source \<open>fallback\<close> and leaves the cache empty.
\<close>

theorem route_rejects_unprintable_query:
  "js_toString unprintable_query = Inl (TypeError ''Cannot convert object to primitive value'')
   \<and> route demo_md5 demo_json config_ai_on demo_clock ''navigator'' unprintable_query ()
         (newCostGuard config_ai_on demo_day) []
       = (Inl (TypeError ''Cannot convert object to primitive value''),
          newCostGuard config_ai_on demo_day, [])
   \<and> fst (route demo_md5 demo_json config_ai_on demo_clock ''navigator'' critical_housing_client ()
            (newCostGuard config_ai_on demo_day) [])
       = Inr (getFallbackResponse ''navigator'')
   \<and> cache (fst (snd (route demo_md5 demo_json config_ai_on demo_clock ''navigator''
            critical_housing_client () (newCostGuard config_ai_on demo_day) []))) = []
   \<and> source (getFallbackResponse ''navigator'') = Some ''fallback''"
proof -
  let ?g = "newCostGuard config_ai_on demo_day"
  let ?h = "?g\<lparr>stats := (stats ?g)\<lparr>cacheMisses := cacheMisses (stats ?g) + 1\<rparr>\<rparr>"
  have t: "js_toString unprintable_query
             = Inl (TypeError ''Cannot convert object to primitive value'')"
    by (simp add: unprintable_query_def)
  have a: "route demo_md5 demo_json config_ai_on demo_clock ''navigator'' unprintable_query ()
             ?g [] = (Inl (TypeError ''Cannot convert object to primitive value''), ?g, [])"
    by (rule route_rejects [OF t])
  have cg: "cacheGet (t_get demo_clock)
              (cacheKey demo_md5 demo_json ''navigator'' critical_housing_client ()) ?g
              = (None, ?h)"
    by (rule cacheGet_empty [OF new_guard_cache])
  have tr: "route_try config_ai_on demo_clock ''navigator'' critical_housing_client ?h []
              = (Inl (TypeError ''input.toLowerCase is not a function''), ?h, [] @ [Invoked Rules])"
    by (rule client_navigator_throws)
  have r: "route demo_md5 demo_json config_ai_on demo_clock ''navigator''
             critical_housing_client () ?g []
             = (Inr (getFallbackResponse ''navigator''), ?h, [] @ [Invoked Rules])"
    by (rule route_fell_back [OF client_renders(1) cg tr])
  have b: "fst (route demo_md5 demo_json config_ai_on demo_clock ''navigator''
                 critical_housing_client () ?g []) = Inr (getFallbackResponse ''navigator'')"
    unfolding r by simp
  have c: "cache (fst (snd (route demo_md5 demo_json config_ai_on demo_clock ''navigator''
            critical_housing_client () ?g []))) = []"
    unfolding r by (simp add: new_guard_cache)
  from t a b c fallback_source [of "''navigator''"] show ?thesis
    by (intro conjI)
qed

section \<open>Repeated requests\<close>

lemma cacheGet_Some:
  assumes "cacheGet now key g = (Some d, g1)"
  shows "\<exists>e. map_of (cache g) key = Some e \<and> now < expiry e \<and> d = data e
             \<and> g1 = g\<lparr>stats := (stats g)\<lparr>cacheHits := cacheHits (stats g) + 1\<rparr>\<rparr>"
  using assms by (auto simp add: cacheGet_def split: option.splits if_splits)

text \<open>After a call that neither rejected nor reached the \<open>catch\<close> block the cache
  holds the returned result under the key of the request.\<close>

lemma route_result_cached:
  assumes ok: "route_failure md5hex json cfg clk task inp options g w = None"
    and first: "route md5hex json cfg clk task inp options g w = (out1, g1, w1)"
  shows "\<exists>e. map_of (cache g1) (cacheKey md5hex json task inp options) = Some e
             \<and> out1 = Inr (data e)
             \<and> (fst (cacheGet (t_get clk) (cacheKey md5hex json task inp options) g) = None
                  \<longrightarrow> expiry e = t_set clk + getTTL cfg task * 1000)"
proof -
  let ?key = "cacheKey md5hex json task inp options"
  from ok obtain str where rend: "js_toString inp = Inr str"
    by (cases "js_toString inp") (simp_all add: route_failure_def)
  obtain c g0 where cg: "cacheGet (t_get clk) ?key g = (c, g0)"
    by (cases "cacheGet (t_get clk) ?key g")
  show ?thesis
  proof (cases c)
    case (Some d)
    from cacheGet_Some [OF cg [unfolded Some]]
    obtain e where e: "map_of (cache g) ?key = Some e" "t_get clk < expiry e" "d = data e"
      "g0 = g\<lparr>stats := (stats g)\<lparr>cacheHits := cacheHits (stats g) + 1\<rparr>\<rparr>"
      by (elim exE conjE) (rule that)
    from first cg Some have "out1 = Inr d" "g1 = g0"
      by (simp_all add: route_unfold [OF rend])
    with e cg Some show ?thesis
      by simp
  next
    case None
    obtain out g2 w2 where t: "route_try cfg clk task inp g0 w = (out, g2, w2)"
      by (cases "route_try cfg clk task inp g0 w") auto
    from ok cg None t rend obtain r where r: "out = Inr r"
      by (cases out) (simp_all add: route_failure_def)
    from first route_stored [OF rend cg [unfolded None] t [unfolded r]]
    have "out1 = Inr r" "g1 = cacheSet (t_set clk) ?key r (Some (getTTL cfg task)) g2"
      by simp_all
    then show ?thesis
      by (simp add: cacheSet_frame)
  qed
qed

text \<open>A later call whose key is the same and whose lookup comes before the expiry of that
  entry returns it from the cache and changes only the hit counter.\<close>

lemma second_call_same_key:
  assumes ok: "route_failure md5hex json cfg clk1 task inp options g w = None"
    and first: "route md5hex json cfg clk1 task inp options g w = (out1, g1, w1)"
    and same: "cacheKey md5hex json task2 inp2 options2 = cacheKey md5hex json task inp options"
    and rend: "js_toString inp2 = Inr str"
  shows "\<exists>e. map_of (cache g1) (cacheKey md5hex json task inp options) = Some e
             \<and> (fst (cacheGet (t_get clk1) (cacheKey md5hex json task inp options) g) = None
                  \<longrightarrow> expiry e = t_set clk1 + getTTL cfg task * 1000)
             \<and> (\<forall>clk2. t_get clk2 < expiry e \<longrightarrow>
                   route md5hex json cfg2 clk2 task2 inp2 options2 g1 w1
                     = (out1, g1\<lparr>stats := (stats g1)\<lparr>cacheHits := cacheHits (stats g1) + 1\<rparr>\<rparr>, w1))"
proof -
  from route_result_cached [OF ok first]
  obtain e where e: "map_of (cache g1) (cacheKey md5hex json task inp options) = Some e"
    "out1 = Inr (data e)"
    "fst (cacheGet (t_get clk1) (cacheKey md5hex json task inp options) g) = None
       \<longrightarrow> expiry e = t_set clk1 + getTTL cfg task * 1000"
    by (elim exE conjE) (rule that)
  have "\<forall>clk2. t_get clk2 < expiry e \<longrightarrow>
          route md5hex json cfg2 clk2 task2 inp2 options2 g1 w1
            = (out1, g1\<lparr>stats := (stats g1)\<lparr>cacheHits := cacheHits (stats g1) + 1\<rparr>\<rparr>, w1)"
  proof (intro allI impI)
    fix clk2 :: clock
    assume lt: "t_get clk2 < expiry e"
    from e(1) same have "map_of (cache g1) (cacheKey md5hex json task2 inp2 options2) = Some e"
      by simp
    from route_hit [OF rend this lt, of cfg2 w1] e(2)
    show "route md5hex json cfg2 clk2 task2 inp2 options2 g1 w1
            = (out1, g1\<lparr>stats := (stats g1)\<lparr>cacheHits := cacheHits (stats g1) + 1\<rparr>\<rparr>, w1)"
      by simp
  qed
  with e show ?thesis
    by (intro exI [of _ e] conjI)
qed

text \<open>
  Claim C7. Take a \<open>route\<close> call that succeeds, that is, neither rejects nor ends in the
  \<open>catch\<close> block. Afterwards the cache holds an entry for the request (expiring a TTL after it was
  stored, when this call stored it), and every second call for the same task, input and
  options whose lookup comes before that expiry returns the identical result, leaves the
  event log as it was (no tier is invoked, no operation runs) and leaves the guard as it was
  but for one more cache hit: no token is consumed and no call is counted.
\<close>

theorem cache_idempotence:
  assumes "route_failure md5hex json cfg clk1 task inp options g w = None"
    and "route md5hex json cfg clk1 task inp options g w = (out1, g1, w1)"
  shows "\<exists>e. map_of (cache g1) (cacheKey md5hex json task inp options) = Some e
             \<and> (fst (cacheGet (t_get clk1) (cacheKey md5hex json task inp options) g) = None
                  \<longrightarrow> expiry e = t_set clk1 + getTTL cfg task * 1000)
             \<and> (\<forall>clk2. t_get clk2 < expiry e \<longrightarrow>
                   route md5hex json cfg clk2 task inp options g1 w1
                     = (out1, g1\<lparr>stats := (stats g1)\<lparr>cacheHits := cacheHits (stats g1) + 1\<rparr>\<rparr>, w1)
                   \<and> dailyTokens (stats (fst (snd (route md5hex json cfg clk2 task inp options g1 w1))))
                       = dailyTokens (stats g1)
                   \<and> totalTokens (stats (fst (snd (route md5hex json cfg clk2 task inp options g1 w1))))
                       = totalTokens (stats g1)
                   \<and> cheapCalls (stats (fst (snd (route md5hex json cfg clk2 task inp options g1 w1))))
                       = cheapCalls (stats g1)
                   \<and> expensiveCalls (stats (fst (snd (route md5hex json cfg clk2 task inp options g1 w1))))
                       = expensiveCalls (stats g1))"
proof -
  from assms(1) obtain str where rend: "js_toString inp = Inr str"
    by (cases "js_toString inp") (simp_all add: route_failure_def)
  from second_call_same_key [OF assms refl rend, of cfg]
  obtain e where e: "map_of (cache g1) (cacheKey md5hex json task inp options) = Some e"
    "fst (cacheGet (t_get clk1) (cacheKey md5hex json task inp options) g) = None
       \<longrightarrow> expiry e = t_set clk1 + getTTL cfg task * 1000"
    "\<forall>clk2. t_get clk2 < expiry e \<longrightarrow>
        route md5hex json cfg clk2 task inp options g1 w1
          = (out1, g1\<lparr>stats := (stats g1)\<lparr>cacheHits := cacheHits (stats g1) + 1\<rparr>\<rparr>, w1)"
    by (elim exE conjE) (rule that)
  from e(3) have "\<forall>clk2. t_get clk2 < expiry e \<longrightarrow>
                   route md5hex json cfg clk2 task inp options g1 w1
                     = (out1, g1\<lparr>stats := (stats g1)\<lparr>cacheHits := cacheHits (stats g1) + 1\<rparr>\<rparr>, w1)
                   \<and> dailyTokens (stats (fst (snd (route md5hex json cfg clk2 task inp options g1 w1))))
                       = dailyTokens (stats g1)
                   \<and> totalTokens (stats (fst (snd (route md5hex json cfg clk2 task inp options g1 w1))))
                       = totalTokens (stats g1)
                   \<and> cheapCalls (stats (fst (snd (route md5hex json cfg clk2 task inp options g1 w1))))
                       = cheapCalls (stats g1)
                   \<and> expensiveCalls (stats (fst (snd (route md5hex json cfg clk2 task inp options g1 w1))))
                       = expensiveCalls (stats g1)"
    by simp
  with e(1,2) show ?thesis
    by (intro exI [of _ e] conjI)
qed

lemma first_housing_query:
  "route_failure demo_md5 demo_json config_ai_on demo_clock ''navigator''
       (JStr ''I need help with housing'') () (newCostGuard config_ai_on demo_day) [] = None"
  "fst (cacheGet (t_get demo_clock)
          (cacheKey demo_md5 demo_json ''navigator'' (JStr ''I need help with housing'') ())
          (newCostGuard config_ai_on demo_day)) = None"
  "route demo_md5 demo_json config_ai_on demo_clock ''navigator''
       (JStr ''I need help with housing'') () (newCostGuard config_ai_on demo_day) []
     = (Inr housing_answer, fst after_first_query, snd after_first_query)"
  "snd after_first_query = [Invoked Rules]"
proof -
  let ?g = "newCostGuard config_ai_on demo_day"
  let ?q = "JStr ''I need help with housing''"
  let ?key = "cacheKey demo_md5 demo_json ''navigator'' ?q ()"
  let ?h = "?g\<lparr>stats := (stats ?g)\<lparr>cacheMisses := cacheMisses (stats ?g) + 1\<rparr>\<rparr>"
  have rend: "js_toString ?q = Inr ''I need help with housing''"
    by simp
  have cg: "cacheGet (t_get demo_clock) ?key ?g = (None, ?h)"
    by (rule cacheGet_empty [OF new_guard_cache])
  have rules: "tryRulesFirst (t_rules demo_clock) ''navigator'' ?q = Inr housing_answer"
    unfolding tryRulesFirst_def by (simp add: housing_query_resolved del: navigatorRules.simps)
  have tr: "route_try config_ai_on demo_clock ''navigator'' ?q ?h []
              = (Inr housing_answer, ?h, [] @ [Invoked Rules])"
    by (rule route_try_no_escalation [OF rules]) (simp add: housing_answer_no_escalation)
  show "route_failure demo_md5 demo_json config_ai_on demo_clock ''navigator'' ?q () ?g [] = None"
    by (rule route_failure_stored [OF rend cg tr])
  show "fst (cacheGet (t_get demo_clock) ?key ?g) = None"
    unfolding cg by simp
  note r = route_stored [OF rend cg tr]
  show "route demo_md5 demo_json config_ai_on demo_clock ''navigator'' ?q () ?g []
     = (Inr housing_answer, fst after_first_query, snd after_first_query)"
    unfolding after_first_query_def r by simp
  show "snd after_first_query = [Invoked Rules]"
    unfolding after_first_query_def r by simp
qed

lemma navigator_ttl: "getTTL config_ai_on ''navigator'' = 86400"
  by (simp add: getTTL_def config_ai_on_def num_or_def)

theorem cache_idempotence_witness:
  "route_failure demo_md5 demo_json config_ai_on demo_clock ''navigator''
       (JStr ''I need help with housing'') () (newCostGuard config_ai_on demo_day) [] = None
   \<and> route demo_md5 demo_json config_ai_on demo_clock ''navigator''
        (JStr ''I need help with housing'') () (newCostGuard config_ai_on demo_day) []
       = (Inr housing_answer, fst after_first_query, snd after_first_query)
   \<and> snd after_first_query = [Invoked Rules]
   \<and> t_get later_clock < t_set demo_clock + getTTL config_ai_on ''navigator'' * 1000
   \<and> route demo_md5 demo_json config_ai_on later_clock ''navigator''
        (JStr ''I need help with housing'') () (fst after_first_query) (snd after_first_query)
       = (Inr housing_answer,
          (fst after_first_query)\<lparr>stats := (stats (fst after_first_query))
             \<lparr>cacheHits := cacheHits (stats (fst after_first_query)) + 1\<rparr>\<rparr>,
          snd after_first_query)
   \<and> dailyTokens (stats (fst (snd (route demo_md5 demo_json config_ai_on later_clock ''navigator''
        (JStr ''I need help with housing'') () (fst after_first_query) (snd after_first_query)))))
       = dailyTokens (stats (fst after_first_query))
   \<and> cheapCalls (stats (fst (snd (route demo_md5 demo_json config_ai_on later_clock ''navigator''
        (JStr ''I need help with housing'') () (fst after_first_query) (snd after_first_query)))))
       = cheapCalls (stats (fst after_first_query))"
proof -
  let ?q = "JStr ''I need help with housing''"
  let ?g = "fst after_first_query"
  let ?w = "snd after_first_query"
  have lt: "t_get later_clock < t_set demo_clock + getTTL config_ai_on ''navigator'' * 1000"
    by (simp add: navigator_ttl later_clock_def demo_clock_def)
  from cache_idempotence [OF first_housing_query(1) first_housing_query(3)]
  obtain e :: entry where e: "fst (cacheGet (t_get demo_clock)
          (cacheKey demo_md5 demo_json ''navigator'' ?q ())
          (newCostGuard config_ai_on demo_day)) = None
        \<longrightarrow> expiry e = t_set demo_clock + getTTL config_ai_on ''navigator'' * 1000"
    and h: "\<forall>clk2. t_get clk2 < expiry e \<longrightarrow>
       route demo_md5 demo_json config_ai_on clk2 ''navigator'' ?q () ?g ?w
         = (Inr housing_answer,
            ?g\<lparr>stats := (stats ?g)\<lparr>cacheHits := cacheHits (stats ?g) + 1\<rparr>\<rparr>, ?w)
       \<and> dailyTokens (stats (fst (snd (route demo_md5 demo_json config_ai_on clk2 ''navigator''
            ?q () ?g ?w)))) = dailyTokens (stats ?g)
       \<and> totalTokens (stats (fst (snd (route demo_md5 demo_json config_ai_on clk2 ''navigator''
            ?q () ?g ?w)))) = totalTokens (stats ?g)
       \<and> cheapCalls (stats (fst (snd (route demo_md5 demo_json config_ai_on clk2 ''navigator''
            ?q () ?g ?w)))) = cheapCalls (stats ?g)
       \<and> expensiveCalls (stats (fst (snd (route demo_md5 demo_json config_ai_on clk2 ''navigator''
            ?q () ?g ?w)))) = expensiveCalls (stats ?g)"
    by (elim exE conjE) (rule that)
  from e first_housing_query(2)
  have "expiry e = t_set demo_clock + getTTL config_ai_on ''navigator'' * 1000"
    by (rule mp)
  with lt have "t_get later_clock < expiry e"
    by simp
  with h have r: "route demo_md5 demo_json config_ai_on later_clock ''navigator'' ?q () ?g ?w
         = (Inr housing_answer,
            ?g\<lparr>stats := (stats ?g)\<lparr>cacheHits := cacheHits (stats ?g) + 1\<rparr>\<rparr>, ?w)
       \<and> dailyTokens (stats (fst (snd (route demo_md5 demo_json config_ai_on later_clock
            ''navigator'' ?q () ?g ?w)))) = dailyTokens (stats ?g)
       \<and> totalTokens (stats (fst (snd (route demo_md5 demo_json config_ai_on later_clock
            ''navigator'' ?q () ?g ?w)))) = totalTokens (stats ?g)
       \<and> cheapCalls (stats (fst (snd (route demo_md5 demo_json config_ai_on later_clock
            ''navigator'' ?q () ?g ?w)))) = cheapCalls (stats ?g)
       \<and> expensiveCalls (stats (fst (snd (route demo_md5 demo_json config_ai_on later_clock
            ''navigator'' ?q () ?g ?w)))) = expensiveCalls (stats ?g)"
    by blast
  from r have r1: "route demo_md5 demo_json config_ai_on later_clock ''navigator'' ?q () ?g ?w
         = (Inr housing_answer,
            ?g\<lparr>stats := (stats ?g)\<lparr>cacheHits := cacheHits (stats ?g) + 1\<rparr>\<rparr>, ?w)"
    by (rule conjunct1)
  from r have r2: "dailyTokens (stats (fst (snd (route demo_md5 demo_json config_ai_on later_clock
            ''navigator'' ?q () ?g ?w)))) = dailyTokens (stats ?g)"
    by blast
  from r have r3: "cheapCalls (stats (fst (snd (route demo_md5 demo_json config_ai_on later_clock
            ''navigator'' ?q () ?g ?w)))) = cheapCalls (stats ?g)"
    by blast
  from first_housing_query(1,3,4) lt r1 r2 r3 show ?thesis
    by (intro conjI)
qed

section \<open>Non-string inputs and the cache key\<close>












section \<open>Budget enforcement\<close>

lemma cacheGet_absent:
  assumes "map_of (cache g) key = None"
  shows "cacheGet now key g
           = (None, g\<lparr>stats := (stats g)\<lparr>cacheMisses := cacheMisses (stats g) + 1\<rparr>\<rparr>)"
  using assms by (simp add: cacheGet_def)

text \<open>One call that reaches the cheap tier, on the day of the last reset: it is charged
  when the daily ceiling allows it and falls back otherwise.\<close>

lemma route_budget_step:
  assumes en: "truthy (enabled cfg)"
    and cost: "(case AI_MAX_TOKENS_CHEAP cfg of None \<Rightarrow> 100 | Some n \<Rightarrow> n) = c"
    and le: "c \<le> maxCheapTokens (gconfig g)"
    and day: "d_cheap clk = lastResetDate (stats g)"
    and rules: "tryRulesFirst (t_rules clk) task inp = Inr r"
    and esc: "shouldEscalate r"
    and miss: "map_of (cache g) (cacheKey md5hex json task inp options) = None"
    and rend: "js_toString inp = Inr str"
  shows "\<exists>g1 w1. route md5hex json cfg clk task inp options g w
            = (Inr (if dailyTokens (stats g) + c \<le> maxDailyTokens (gconfig g)
                    then cheap_response cfg task else getFallbackResponse task), g1, w1)
          \<and> gconfig g1 = gconfig g
          \<and> lastResetDate (stats g1) = lastResetDate (stats g)
          \<and> dailyTokens (stats g1)
              = dailyTokens (stats g)
                  + (if dailyTokens (stats g) + c \<le> maxDailyTokens (gconfig g) then c else 0)
          \<and> cheapCalls (stats g1)
              = cheapCalls (stats g)
                  + (if dailyTokens (stats g) + c \<le> maxDailyTokens (gconfig g) then 1 else 0)
          \<and> (\<forall>k. k \<noteq> cacheKey md5hex json task inp options
                 \<longrightarrow> map_of (cache g1) k = map_of (cache g) k)"
proof -
  let ?key = "cacheKey md5hex json task inp options"
  let ?h = "g\<lparr>stats := (stats g)\<lparr>cacheMisses := cacheMisses (stats g) + 1\<rparr>\<rparr>"
  have cg: "cacheGet (t_get clk) ?key g = (None, ?h)"
    by (rule cacheGet_absent [OF miss])
  have same: "resetDailyCountersIfNeeded (d_cheap clk) ?h = ?h"
    by (rule reset_same_day) (simp add: day)
  have can: "fst (canMakeCall (d_cheap clk) c ''cheap'' ?h)
               \<longleftrightarrow> dailyTokens (stats g) + c \<le> maxDailyTokens (gconfig g)"
    unfolding canMakeCall_value same using le by simp
  show ?thesis
  proof (cases "dailyTokens (stats g) + c \<le> maxDailyTokens (gconfig g)")
    case True
    with can have "fst (canMakeCall (d_cheap clk) c ''cheap'' ?h)"
      by simp
    from route_try_cheap(1) [OF en rules esc cost this, of w]
    obtain g1 where tr: "route_try cfg clk task inp ?h w
                  = (Inr (cheap_response cfg task), g1, w @ [Invoked Rules, Invoked Cheap, Generated Cheap])"
      and fr: "cache g1 = cache ?h" "gconfig g1 = gconfig ?h"
        "lastResetDate (stats g1) = d_cheap clk"
        "dailyTokens (stats g1)
           = dailyTokens (stats (resetDailyCountersIfNeeded (d_cheap clk) ?h)) + c"
        "cheapCalls (stats g1) = cheapCalls (stats ?h) + 1"
      by (elim exE conjE) (rule that)
    from fr(4) have dt: "dailyTokens (stats g1) = dailyTokens (stats g) + c"
      unfolding same by simp
    let ?g2 = "cacheSet (t_set clk) ?key (cheap_response cfg task) (Some (getTTL cfg task)) g1"
    have r: "route md5hex json cfg clk task inp options g w
               = (Inr (cheap_response cfg task), ?g2,
                  w @ [Invoked Rules, Invoked Cheap, Generated Cheap])"
      by (rule route_stored [OF rend cg tr])
    have "gconfig ?g2 = gconfig g" "lastResetDate (stats ?g2) = lastResetDate (stats g)"
      "dailyTokens (stats ?g2) = dailyTokens (stats g) + c"
      "cheapCalls (stats ?g2) = cheapCalls (stats g) + 1"
      "\<forall>k. k \<noteq> ?key \<longrightarrow> map_of (cache ?g2) k = map_of (cache g) k"
      using fr dt day by (simp_all add: cacheSet_frame)
    with r True show ?thesis
      by simp
  next
    case False
    with can have no: "\<not> fst (canMakeCall (d_cheap clk) c ''cheap'' ?h)"
      by simp
    from route_try_cheap(2) [OF en rules esc cost no, of w]
    have tr: "route_try cfg clk task inp ?h w
             = (Inl (BudgetExceeded (''cheap-'' @ task) (maxDailyTokens (gconfig ?h))
                       (dailyTokens (stats ?h))), ?h, w @ [Invoked Rules, Invoked Cheap])"
      unfolding same .
    have r: "route md5hex json cfg clk task inp options g w
               = (Inr (getFallbackResponse task), ?h, w @ [Invoked Rules, Invoked Cheap])"
      by (rule route_fell_back [OF rend cg tr])
    with False show ?thesis
      by simp
  qed
qed

lemma budget_count_more:
  fixes c u T :: int
  assumes "0 < c" and "u + c \<le> T"
  shows "nat ((T - u) div c) = Suc (nat ((T - (u + c)) div c))"
proof -
  have "T - u = (T - (u + c)) + c"
    by simp
  then have "(T - u) div c = (T - (u + c)) div c + 1"
    using assms(1) by (simp only: div_add_self2)
  moreover have "0 \<le> (T - (u + c)) div c"
    using assms by (simp add: pos_imp_zdiv_nonneg_iff)
  ultimately show ?thesis
    by simp
qed

lemma budget_count_none:
  fixes c u T :: int
  assumes "0 < c" and "\<not> u + c \<le> T"
  shows "nat ((T - u) div c) = 0"
proof (cases "0 \<le> T - u")
  case True
  with assms have "(T - u) div c = 0"
    by (intro div_pos_pos_trivial) simp_all
  then show ?thesis by simp
next
  case False
  with assms(1) have "(T - u) div c < 0"
    by (simp add: pos_imp_zdiv_neg_iff)
  then show ?thesis by simp
qed

lemma route_all_budget:
  assumes en: "truthy (enabled cfg)"
    and cost: "(case AI_MAX_TOKENS_CHEAP cfg of None \<Rightarrow> 100 | Some n \<Rightarrow> n) = c"
    and pos: "0 < c"
  shows "c \<le> maxCheapTokens (gconfig g)
     \<Longrightarrow> \<forall>rq \<in> set rqs. d_cheap (rq_clock rq) = lastResetDate (stats g)
     \<Longrightarrow> \<forall>rq \<in> set rqs. \<exists>r. tryRulesFirst (t_rules (rq_clock rq)) (rq_task rq) (rq_input rq) = Inr r
                                  \<and> shouldEscalate r
     \<Longrightarrow> distinct (map (request_key md5hex json) rqs)
     \<Longrightarrow> \<forall>rq \<in> set rqs. map_of (cache g) (request_key md5hex json rq) = None
     \<Longrightarrow> \<forall>rq \<in> set rqs. \<exists>s. js_toString (rq_input rq) = Inr s
     \<Longrightarrow> fst (route_all md5hex json cfg rqs g w)
           = map (\<lambda>rq. Inr (cheap_response cfg (rq_task rq)))
               (take (nat ((maxDailyTokens (gconfig g) - dailyTokens (stats g)) div c)) rqs)
             @ map (\<lambda>rq. Inr (getFallbackResponse (rq_task rq)))
                 (drop (nat ((maxDailyTokens (gconfig g) - dailyTokens (stats g)) div c)) rqs)
         \<and> cheapCalls (stats (fst (snd (route_all md5hex json cfg rqs g w))))
             = cheapCalls (stats g)
                 + min (length rqs) (nat ((maxDailyTokens (gconfig g) - dailyTokens (stats g)) div c))"
proof (induction rqs arbitrary: g w)
  case Nil
  then show ?case by simp
next
  case (Cons rq rqs)
  let ?key = "cacheKey md5hex json (rq_task rq) (rq_input rq) (rq_options rq)"
  let ?T = "maxDailyTokens (gconfig g)"
  let ?u = "dailyTokens (stats g)"
  from Cons.prems(3) obtain r
    where rules: "tryRulesFirst (t_rules (rq_clock rq)) (rq_task rq) (rq_input rq) = Inr r"
      and esc: "shouldEscalate r"
    by auto
  from Cons.prems(2) have day: "d_cheap (rq_clock rq) = lastResetDate (stats g)"
    by simp
  from Cons.prems(5) have miss: "map_of (cache g) ?key = None"
    by (simp add: request_key_def)
  from Cons.prems(6) obtain str where rend: "js_toString (rq_input rq) = Inr str"
    by auto
  from route_budget_step [OF en cost Cons.prems(1) day rules esc miss rend, of w]
  obtain g1 w1 where
    r: "route md5hex json cfg (rq_clock rq) (rq_task rq) (rq_input rq) (rq_options rq) g w
          = (Inr (if ?u + c \<le> ?T then cheap_response cfg (rq_task rq)
                  else getFallbackResponse (rq_task rq)), g1, w1)"
    and cfg1: "gconfig g1 = gconfig g"
    and day1: "lastResetDate (stats g1) = lastResetDate (stats g)"
    and tok1: "dailyTokens (stats g1) = ?u + (if ?u + c \<le> ?T then c else 0)"
    and calls1: "cheapCalls (stats g1) = cheapCalls (stats g) + (if ?u + c \<le> ?T then 1 else 0)"
    and cache1: "\<forall>k. k \<noteq> ?key \<longrightarrow> map_of (cache g1) k = map_of (cache g) k"
    by (elim exE conjE) (rule that)
  have p1: "c \<le> maxCheapTokens (gconfig g1)"
    using Cons.prems(1) cfg1 by simp
  have p2: "\<forall>rq \<in> set rqs. d_cheap (rq_clock rq) = lastResetDate (stats g1)"
    using Cons.prems(2) day1 by simp
  have p3: "\<forall>rq \<in> set rqs. \<exists>r. tryRulesFirst (t_rules (rq_clock rq)) (rq_task rq) (rq_input rq) = Inr r
                                  \<and> shouldEscalate r"
    using Cons.prems(3) by simp
  have p4: "distinct (map (request_key md5hex json) rqs)"
    using Cons.prems(4) by simp
  have p5: "\<forall>rq \<in> set rqs. map_of (cache g1) (request_key md5hex json rq) = None"
  proof
    fix q
    assume q: "q \<in> set rqs"
    then have "request_key md5hex json q \<in> request_key md5hex json ` set rqs"
      by (rule imageI)
    with Cons.prems(4) have "request_key md5hex json q \<noteq> request_key md5hex json rq"
      by auto
    then have "request_key md5hex json q \<noteq> ?key"
      by (simp add: request_key_def)
    with cache1 have "map_of (cache g1) (request_key md5hex json q)
                        = map_of (cache g) (request_key md5hex json q)"
      by simp
    with Cons.prems(5) q show "map_of (cache g1) (request_key md5hex json q) = None"
      by simp
  qed
  have p6: "\<forall>rq \<in> set rqs. \<exists>s. js_toString (rq_input rq) = Inr s"
    using Cons.prems(6) by simp
  note IH = Cons.IH [OF p1 p2 p3 p4 p5 p6, of w1]
  obtain outs g2 w2 where ra: "route_all md5hex json cfg rqs g1 w1 = (outs, g2, w2)"
    by (cases "route_all md5hex json cfg rqs g1 w1") auto
  have whole: "route_all md5hex json cfg (rq # rqs) g w
          = (Inr (if ?u + c \<le> ?T then cheap_response cfg (rq_task rq)
                  else getFallbackResponse (rq_task rq)) # outs, g2, w2)"
    by (simp add: r ra)
  show ?case
  proof (cases "?u + c \<le> ?T")
    case True
    from budget_count_more [OF pos True]
    have n: "nat ((?T - ?u) div c) = Suc (nat ((?T - (?u + c)) div c))" .
    from True tok1 cfg1
    have n1: "nat ((maxDailyTokens (gconfig g1) - dailyTokens (stats g1)) div c)
                = nat ((?T - (?u + c)) div c)"
      by simp
    from IH ra True calls1 show ?thesis
      unfolding whole n n1 by simp
  next
    case False
    from budget_count_none [OF pos False]
    have n: "nat ((?T - ?u) div c) = 0" .
    from False tok1 cfg1
    have n1: "nat ((maxDailyTokens (gconfig g1) - dailyTokens (stats g1)) div c) = 0"
      by (simp add: n)
    from IH ra False calls1 show ?thesis
      unfolding whole n n1 by simp
  qed
qed

text \<open>
  Claim C5. \<open>canMakeCall\<close> answers true exactly when the estimate is within the ceiling of
  the tier and, after the lazy reset, the daily usage plus the estimate is within the daily
  ceiling. Consequently, on a guard with no usage today, daily ceiling \<open>T\<close> and a cheap-tier
  cost \<open>c > 0\<close> (the configured \<open>AI_MAX_TOKENS_CHEAP\<close>, or 100) within the cheap ceiling,
  a sequence of \<open>route\<close> calls that all miss the cache and all reach the cheap tier (their
  inputs have a string conversion, so that the key is computed) is answered by the cheap tier for its first
  \<open>T div c\<close> calls; every later call is rejected by the guard and \<open>route\<close> returns the
  fallback response of its task for it. Exactly \<open>min (number of calls) (T div c)\<close> cheap
  calls are counted.
\<close>

theorem budget_enforcement:
  "(fst (canMakeCall today n ty g) \<longleftrightarrow>
      n \<le> (if ty = ''expensive'' then maxExpensiveTokens (gconfig g) else maxCheapTokens (gconfig g))
      \<and> dailyTokens (stats (resetDailyCountersIfNeeded today g)) + n \<le> maxDailyTokens (gconfig g))
   \<and> (truthy (enabled cfg)
        \<and> (case AI_MAX_TOKENS_CHEAP cfg of None \<Rightarrow> 100 | Some n \<Rightarrow> n) = c \<and> 0 < c
        \<and> c \<le> maxCheapTokens (gconfig g)
        \<and> dailyTokens (stats g) = 0
        \<and> (\<forall>rq \<in> set rqs. d_cheap (rq_clock rq) = lastResetDate (stats g))
        \<and> (\<forall>rq \<in> set rqs. \<exists>r. tryRulesFirst (t_rules (rq_clock rq)) (rq_task rq) (rq_input rq) = Inr r
                                  \<and> shouldEscalate r)
        \<and> distinct (map (request_key md5hex json) rqs)
        \<and> (\<forall>rq \<in> set rqs. map_of (cache g) (request_key md5hex json rq) = None)
        \<and> (\<forall>rq \<in> set rqs. \<exists>s. js_toString (rq_input rq) = Inr s)
      \<longrightarrow>
        fst (route_all md5hex json cfg rqs g w)
          = map (\<lambda>rq. Inr (cheap_response cfg (rq_task rq)))
              (take (nat (maxDailyTokens (gconfig g) div c)) rqs)
            @ map (\<lambda>rq. Inr (getFallbackResponse (rq_task rq)))
                (drop (nat (maxDailyTokens (gconfig g) div c)) rqs)
        \<and> cheapCalls (stats (fst (snd (route_all md5hex json cfg rqs g w))))
            = cheapCalls (stats g) + min (length rqs) (nat (maxDailyTokens (gconfig g) div c)))"
proof (intro conjI impI)
  show "fst (canMakeCall today n ty g) \<longleftrightarrow>
      n \<le> (if ty = ''expensive'' then maxExpensiveTokens (gconfig g) else maxCheapTokens (gconfig g))
      \<and> dailyTokens (stats (resetDailyCountersIfNeeded today g)) + n \<le> maxDailyTokens (gconfig g)"
    by (rule canMakeCall_value)
next
  assume h: "truthy (enabled cfg)
        \<and> (case AI_MAX_TOKENS_CHEAP cfg of None \<Rightarrow> 100 | Some n \<Rightarrow> n) = c \<and> 0 < c
        \<and> c \<le> maxCheapTokens (gconfig g)
        \<and> dailyTokens (stats g) = 0
        \<and> (\<forall>rq \<in> set rqs. d_cheap (rq_clock rq) = lastResetDate (stats g))
        \<and> (\<forall>rq \<in> set rqs. \<exists>r. tryRulesFirst (t_rules (rq_clock rq)) (rq_task rq) (rq_input rq) = Inr r
                                  \<and> shouldEscalate r)
        \<and> distinct (map (request_key md5hex json) rqs)
        \<and> (\<forall>rq \<in> set rqs. map_of (cache g) (request_key md5hex json rq) = None)
        \<and> (\<forall>rq \<in> set rqs. \<exists>s. js_toString (rq_input rq) = Inr s)"
  then have en: "truthy (enabled cfg)"
    and cost: "(case AI_MAX_TOKENS_CHEAP cfg of None \<Rightarrow> 100 | Some n \<Rightarrow> n) = c"
    and pos: "0 < c" and le: "c \<le> maxCheapTokens (gconfig g)"
    and zero: "dailyTokens (stats g) = 0"
    and p2: "\<forall>rq \<in> set rqs. d_cheap (rq_clock rq) = lastResetDate (stats g)"
    and p3: "\<forall>rq \<in> set rqs. \<exists>r. tryRulesFirst (t_rules (rq_clock rq)) (rq_task rq) (rq_input rq) = Inr r
                                  \<and> shouldEscalate r"
    and p4: "distinct (map (request_key md5hex json) rqs)"
    and p5: "\<forall>rq \<in> set rqs. map_of (cache g) (request_key md5hex json rq) = None"
    and p6: "\<forall>rq \<in> set rqs. \<exists>s. js_toString (rq_input rq) = Inr s"
    by simp_all
  from route_all_budget [OF en cost pos le p2 p3 p4 p5 p6, of w] zero
  show "fst (route_all md5hex json cfg rqs g w)
          = map (\<lambda>rq. Inr (cheap_response cfg (rq_task rq)))
              (take (nat (maxDailyTokens (gconfig g) div c)) rqs)
            @ map (\<lambda>rq. Inr (getFallbackResponse (rq_task rq)))
                (drop (nat (maxDailyTokens (gconfig g) div c)) rqs)"
    and "cheapCalls (stats (fst (snd (route_all md5hex json cfg rqs g w))))
            = cheapCalls (stats g) + min (length rqs) (nat (maxDailyTokens (gconfig g) div c))"
    by simp_all
qed

lemma other_queries_unresolved:
  "navigatorRules (JStr ''my phone bill'') = Inr navigator_uncertain"
  "navigatorRules (JStr ''need a haircut'') = Inr navigator_uncertain"
  by (simp_all add: toLowerCase_def lower_char_def faqRules_def)

lemma limited_guard_values:
  "maxDailyTokens (gconfig limited_guard) = 600"
  "maxCheapTokens (gconfig limited_guard) = 256"
  "dailyTokens (stats limited_guard) = 0"
  "cheapCalls (stats limited_guard) = 0"
  "lastResetDate (stats limited_guard) = demo_day"
  "cache limited_guard = []"
  by (simp_all add: limited_guard_def setEmergencyLimits_def newCostGuard_def config_ai_on_def
        num_or_def)

theorem budget_enforcement_witness:
  "fst (canMakeCall demo_day 256 ''cheap'' limited_guard)
   \<and> \<not> fst (canMakeCall demo_day 257 ''cheap'' limited_guard)
   \<and> truthy (enabled config_ai_on)
   \<and> AI_MAX_TOKENS_CHEAP config_ai_on = Some 256
   \<and> maxDailyTokens (gconfig limited_guard) = 600
   \<and> dailyTokens (stats limited_guard) = 0
   \<and> fst (route_all demo_md5 demo_json config_ai_on three_requests limited_guard [])
       = [Inr (cheap_response config_ai_on ''navigator''),
          Inr (cheap_response config_ai_on ''navigator''),
          Inr (getFallbackResponse ''navigator'')]
   \<and> cheapCalls (stats (fst (snd (route_all demo_md5 demo_json config_ai_on three_requests
         limited_guard [])))) = 2"
proof -
  have same: "resetDailyCountersIfNeeded demo_day limited_guard = limited_guard"
    by (rule reset_same_day) (simp add: limited_guard_values)
  have en: "truthy (enabled config_ai_on)"
    by (simp add: enabled_def config_ai_on_def)
  have cost: "(case AI_MAX_TOKENS_CHEAP config_ai_on of None \<Rightarrow> 100 | Some n \<Rightarrow> n) = 256"
    and cost256: "AI_MAX_TOKENS_CHEAP config_ai_on = Some 256"
    by (simp_all add: config_ai_on_def)
  have esc: "shouldEscalate navigator_uncertain"
    by (simp add: shouldEscalate_def navigator_uncertain_fields)
  have days: "\<forall>rq \<in> set three_requests. d_cheap (rq_clock rq) = lastResetDate (stats limited_guard)"
    by (simp add: three_requests_def navigator_request_def demo_clock_def limited_guard_values)
  have rules: "\<forall>rq \<in> set three_requests.
                 \<exists>r. tryRulesFirst (t_rules (rq_clock rq)) (rq_task rq) (rq_input rq) = Inr r
                       \<and> shouldEscalate r"
    by (simp add: three_requests_def navigator_request_def tryRulesFirst_def
          wallet_query_unresolved other_queries_unresolved esc del: navigatorRules.simps)
  have keys: "distinct (map (request_key demo_md5 demo_json) three_requests)"
    by (simp add: three_requests_def navigator_request_def request_key_def cacheKey_def
          hashRequest_def demo_md5_def)
  have fresh: "\<forall>rq \<in> set three_requests.
                 map_of (cache limited_guard) (request_key demo_md5 demo_json rq) = None"
    by (simp add: limited_guard_values)
  have rends: "\<forall>rq \<in> set three_requests. \<exists>s. js_toString (rq_input rq) = Inr s"
    by (simp add: three_requests_def navigator_request_def)
  note t = budget_enforcement [where today = demo_day and n = 256 and ty = "''cheap''"
             and g = limited_guard and cfg = config_ai_on and c = 256 and rqs = three_requests
             and ?md5hex = demo_md5 and json = demo_json and w = "[]"]
  note t2 = budget_enforcement [where today = demo_day and n = 257 and ty = "''cheap''"
             and g = limited_guard and cfg = config_ai_on and c = 256 and rqs = three_requests
             and ?md5hex = demo_md5 and json = demo_json and w = "[]"]
  from t have can: "fst (canMakeCall demo_day 256 ''cheap'' limited_guard)"
    unfolding same by (simp add: limited_guard_values)
  from t2 have cannot: "\<not> fst (canMakeCall demo_day 257 ''cheap'' limited_guard)"
    unfolding same by (simp add: limited_guard_values)
  from t en cost days rules keys fresh rends
  have "fst (route_all demo_md5 demo_json config_ai_on three_requests limited_guard [])
          = map (\<lambda>rq. Inr (cheap_response config_ai_on (rq_task rq)))
              (take (nat (maxDailyTokens (gconfig limited_guard) div 256)) three_requests)
            @ map (\<lambda>rq. Inr (getFallbackResponse (rq_task rq)))
                (drop (nat (maxDailyTokens (gconfig limited_guard) div 256)) three_requests)
        \<and> cheapCalls (stats (fst (snd (route_all demo_md5 demo_json config_ai_on three_requests
              limited_guard []))))
            = cheapCalls (stats limited_guard)
                + min (length three_requests) (nat (maxDailyTokens (gconfig limited_guard) div 256))"
    by (simp add: limited_guard_values)
  then have outs: "fst (route_all demo_md5 demo_json config_ai_on three_requests limited_guard [])
       = [Inr (cheap_response config_ai_on ''navigator''),
          Inr (cheap_response config_ai_on ''navigator''),
          Inr (getFallbackResponse ''navigator'')]"
    and calls: "cheapCalls (stats (fst (snd (route_all demo_md5 demo_json config_ai_on three_requests
         limited_guard [])))) = 2"
    by (simp_all add: limited_guard_values three_requests_def navigator_request_def)
  from can cannot en cost256 limited_guard_values(1,3) outs calls show ?thesis
    by (intro conjI)
qed

end
